theory Spec2Isabelle
  imports Complex_Main
begin

section \<open>Python values and faults\<close>

text \<open>
  The program is one Python module, \<^verbatim>\<open>final_portfolio_project.py\<close>. Its numbers are
  Python \<^verbatim>\<open>int\<close> (unbounded, modelled by \<^typ>\<open>int\<close>) and \<^verbatim>\<open>float\<close>. A float is
  modelled by the real number it stands for: the operations and their order are those of
  the source; the rounding, the underflow and the range of IEEE doubles are not
  represented, and an infinity or a NaN that \<^verbatim>\<open>float\<close> reads from text is kept as one real
  beyond the doubles. Text is ASCII. Every exception the module can raise is a value of
  \<open>py_error\<close>, and a computation that may raise returns \<open>py_error + 'a\<close>.
\<close>

datatype py_error =
    ValueError
  | ZeroDivisionError
  | IndexError
  | EOFError
  | OSError
  | AttributeError
  | OverflowError
  | OperationalError

text \<open>Float division \<^verbatim>\<open>a / b\<close>: Python raises \<^verbatim>\<open>ZeroDivisionError\<close> when \<^verbatim>\<open>b\<close> is zero.\<close>

definition truediv :: "real \<Rightarrow> real \<Rightarrow> py_error + real" where
  "truediv a b = (if b = 0 then Inl ZeroDivisionError else Inr (a / b))"

section \<open>Calendar dates\<close>

text \<open>
  \<^verbatim>\<open>datetime.strptime(s, "%m/%d/%Y")\<close> and the subtraction of two \<^verbatim>\<open>datetime\<close> values, after
  CPython's \<^verbatim>\<open>_strptime.py\<close> and \<^verbatim>\<open>datetime.py\<close>. The format is compiled to the regular
  expression
  \<^verbatim>\<open>(1[0-2]|0[1-9]|[1-9])/(3[0-1]|[1-2]\d|0[1-9]|[1-9]| [1-9])/(\d\d\d\d)\<close>,
  matched at the start of the string; text left after the match is an error, and so is a
  day the month does not have or the year 0. Every failure is a \<^verbatim>\<open>ValueError\<close>.
  The alternatives are tried in order. A later alternative only ever matches a proper
  prefix of an earlier one, after which the literal \<^verbatim>\<open>/\<close> meets a digit, so taking the first
  alternative that matches loses no parse.
\<close>

record date =
  year :: int
  month :: int
  day :: int

definition is_digit :: "char \<Rightarrow> bool" where
  "is_digit c = (c \<in> set ''0123456789'')"

definition digit_val :: "char \<Rightarrow> nat" where
  "digit_val c = of_char c - 48"

definition match_m :: "string \<Rightarrow> (nat \<times> string) option" where
  "match_m s =
     (case s of
        [] \<Rightarrow> None
      | [c1] \<Rightarrow> if c1 \<in> set ''123456789'' then Some (digit_val c1, []) else None
      | c1 # c2 # r \<Rightarrow>
          if c1 = CHR ''1'' \<and> c2 \<in> set ''012'' then Some (10 + digit_val c2, r)
          else if c1 = CHR ''0'' \<and> c2 \<in> set ''123456789'' then Some (digit_val c2, r)
          else if c1 \<in> set ''123456789'' then Some (digit_val c1, c2 # r)
          else None)"

definition match_d :: "string \<Rightarrow> (nat \<times> string) option" where
  "match_d s =
     (case s of
        [] \<Rightarrow> None
      | [c1] \<Rightarrow> if c1 \<in> set ''123456789'' then Some (digit_val c1, []) else None
      | c1 # c2 # r \<Rightarrow>
          if c1 = CHR ''3'' \<and> c2 \<in> set ''01'' then Some (30 + digit_val c2, r)
          else if c1 \<in> set ''12'' \<and> is_digit c2 then Some (10 * digit_val c1 + digit_val c2, r)
          else if c1 = CHR ''0'' \<and> c2 \<in> set ''123456789'' then Some (digit_val c2, r)
          else if c1 \<in> set ''123456789'' then Some (digit_val c1, c2 # r)
          else if c1 = CHR '' '' \<and> c2 \<in> set ''123456789'' then Some (digit_val c2, r)
          else None)"

definition match_Y :: "string \<Rightarrow> (nat \<times> string) option" where
  "match_Y s =
     (case s of
        c1 # c2 # c3 # c4 # r \<Rightarrow>
          if is_digit c1 \<and> is_digit c2 \<and> is_digit c3 \<and> is_digit c4
          then Some (1000 * digit_val c1 + 100 * digit_val c2 + 10 * digit_val c3 + digit_val c4, r)
          else None
      | _ \<Rightarrow> None)"

definition match_slash :: "string \<Rightarrow> string option" where
  "match_slash s = (case s of [] \<Rightarrow> None | c # r \<Rightarrow> if c = CHR ''/'' then Some r else None)"

definition is_leap :: "int \<Rightarrow> bool" where
  "is_leap y = (y mod 4 = 0 \<and> (y mod 100 \<noteq> 0 \<or> y mod 400 = 0))"

definition days_in_month :: "int \<Rightarrow> int \<Rightarrow> int" where
  "days_in_month y m =
     (if m = 2 \<and> is_leap y then 29
      else [31, 28, 31, 30, 31, 30, 31, 31, 30, 31, 30, 31] ! nat (m - 1))"

definition days_before_year :: "int \<Rightarrow> int" where
  "days_before_year y = (y - 1) * 365 + (y - 1) div 4 - (y - 1) div 100 + (y - 1) div 400"

definition days_before_month :: "int \<Rightarrow> int \<Rightarrow> int" where
  "days_before_month y m =
     [0, 31, 59, 90, 120, 151, 181, 212, 243, 273, 304, 334] ! nat (m - 1)
       + (if m > 2 \<and> is_leap y then 1 else 0)"

definition ymd2ord :: "date \<Rightarrow> int" where
  "ymd2ord d = days_before_year (year d) + days_before_month (year d) (month d) + day d"

definition valid_date :: "date \<Rightarrow> bool" where
  "valid_date d =
     (1 \<le> year d \<and> year d \<le> 9999 \<and> 1 \<le> month d \<and> month d \<le> 12
      \<and> 1 \<le> day d \<and> day d \<le> days_in_month (year d) (month d))"

definition strptime :: "string \<Rightarrow> py_error + date" where
  "strptime s =
     (case match_m s of
        None \<Rightarrow> Inl ValueError
      | Some (m, s1) \<Rightarrow>
     (case match_slash s1 of
        None \<Rightarrow> Inl ValueError
      | Some s2 \<Rightarrow>
     (case match_d s2 of
        None \<Rightarrow> Inl ValueError
      | Some (d, s3) \<Rightarrow>
     (case match_slash s3 of
        None \<Rightarrow> Inl ValueError
      | Some s4 \<Rightarrow>
     (case match_Y s4 of
        None \<Rightarrow> Inl ValueError
      | Some (y, s5) \<Rightarrow>
          if s5 \<noteq> [] then Inl ValueError
          else let dt = \<lparr>year = int y, month = int m, day = int d\<rparr>
               in if valid_date dt then Inr dt else Inl ValueError)))))"

text \<open>
  \<^verbatim>\<open>(today - purchase_date).days\<close>. The parsed purchase date is a midnight, and a
  \<^verbatim>\<open>timedelta\<close> is normalised to \<open>0 \<le> seconds < 86400\<close>, so the time of day of
  \<^verbatim>\<open>datetime.today()\<close> goes to the \<^verbatim>\<open>seconds\<close> and \<^verbatim>\<open>microseconds\<close> fields and \<^verbatim>\<open>days\<close> is
  the difference of the two day numbers. The evaluation time enters the model as the
  calendar date \<open>today\<close>.
\<close>

definition timedelta_days :: "date \<Rightarrow> date \<Rightarrow> int" where
  "timedelta_days today purchase_date = ymd2ord today - ymd2ord purchase_date"

text \<open>
  The order of \<^verbatim>\<open>datetime\<close> values that are both midnights: by year, then month, then day.
\<close>

definition date_less :: "date \<Rightarrow> date \<Rightarrow> bool" where
  "date_less a b =
     (year a < year b
      \<or> (year a = year b \<and> (month a < month b \<or> (month a = month b \<and> day a < day b))))"

section \<open>Strings and numeric conversion\<close>

text \<open>
  The \<^verbatim>\<open>str\<close> methods the module calls, on ASCII text: \<^verbatim>\<open>strip()\<close>, \<^verbatim>\<open>strip(chars)\<close>,
  \<^verbatim>\<open>split(',')\<close>, \<^verbatim>\<open>split()\<close>, \<^verbatim>\<open>lower()\<close>, \<^verbatim>\<open>upper()\<close>, and \<^verbatim>\<open>str(n)\<close> of a line number.
\<close>

definition py_isspace :: "char \<Rightarrow> bool" where
  "py_isspace c =
     (c \<in> set [CHR 0x09, CHR 0x0A, CHR 0x0B, CHR 0x0C, CHR 0x0D,
                CHR 0x1C, CHR 0x1D, CHR 0x1E, CHR 0x1F, CHR 0x20])"

definition strip_where :: "(char \<Rightarrow> bool) \<Rightarrow> string \<Rightarrow> string" where
  "strip_where P s = rev (dropWhile P (rev (dropWhile P s)))"

definition py_strip :: "string \<Rightarrow> string" where
  "py_strip s = strip_where py_isspace s"

definition py_strip_chars :: "string \<Rightarrow> string \<Rightarrow> string" where
  "py_strip_chars chars s = strip_where (\<lambda>c. c \<in> set chars) s"

fun py_split :: "char \<Rightarrow> string \<Rightarrow> string list" where
  "py_split sep [] = [[]]"
| "py_split sep (c # cs) =
     (if c = sep then [] # py_split sep cs
      else (case py_split sep cs of
              [] \<Rightarrow> [[c]]
            | p # ps \<Rightarrow> (c # p) # ps))"

fun split_ws_from :: "string \<Rightarrow> string \<Rightarrow> string list" where
  "split_ws_from tok [] = (if tok = [] then [] else [rev tok])"
| "split_ws_from tok (c # cs) =
     (if py_isspace c
      then (if tok = [] then split_ws_from [] cs else rev tok # split_ws_from [] cs)
      else split_ws_from (c # tok) cs)"

definition py_split_ws :: "string \<Rightarrow> string list" where
  "py_split_ws s = split_ws_from [] s"

definition upper_letters :: string where
  "upper_letters = ''ABCDEFGHIJKLMNOPQRSTUVWXYZ''"

definition lower_letters :: string where
  "lower_letters = ''abcdefghijklmnopqrstuvwxyz''"

definition py_lower :: "string \<Rightarrow> string" where
  "py_lower s =
     map (\<lambda>c. case map_of (zip upper_letters lower_letters) c of None \<Rightarrow> c | Some d \<Rightarrow> d) s"

definition py_upper :: "string \<Rightarrow> string" where
  "py_upper s =
     map (\<lambda>c. case map_of (zip lower_letters upper_letters) c of None \<Rightarrow> c | Some d \<Rightarrow> d) s"

fun py_str :: "nat \<Rightarrow> string" where
  "py_str n =
     (if n < 10 then [''0123456789'' ! n]
      else py_str (n div 10) @ [''0123456789'' ! (n mod 10)])"

declare py_str.simps [simp del]

text \<open>
  \<^verbatim>\<open>int(s)\<close> and \<^verbatim>\<open>float(s)\<close> of an ASCII string, after CPython's \<^verbatim>\<open>PyLong_FromString\<close>
  and \<^verbatim>\<open>float_from_string_inner\<close>. The whitespace they drop at both ends is that of C's
  \<^verbatim>\<open>isspace\<close>, tab to carriage return and the space, a smaller set than that of
  \<^verbatim>\<open>str.strip()\<close>. A sign may lead, digits may be grouped by single underscores, and the
  whole text must be consumed. \<^verbatim>\<open>int\<close> refuses more than 4300 digits.
  \<^verbatim>\<open>float\<close> reads \<^verbatim>\<open>digits[.digits][e[sign]digits]\<close> with at least one digit before the
  exponent, and, in any letter case and after the sign, \<^verbatim>\<open>inf\<close>, \<^verbatim>\<open>infinity\<close> and \<^verbatim>\<open>nan\<close>.
  On these three the conversion succeeds, in the model as in Python, so a line of a data
  file that carries one of them builds a holding. The float they denote is no real number:
  the model, which keeps reals, stores \<open>nonfinite\<close> in its place, a magnitude above that of
  every double, and computes with it as with any real, not as IEEE does with infinities
  and NaN. 4300 is the limit of \<^verbatim>\<open>int\<close> that the interpreter starts with; the module does
  not change it.
\<close>

definition c_isspace :: "char \<Rightarrow> bool" where
  "c_isspace c = (c \<in> set [CHR 0x09, CHR 0x0A, CHR 0x0B, CHR 0x0C, CHR 0x0D, CHR 0x20])"

definition nonfinite :: real where
  "nonfinite = 2 ^ 1024"

fun digitpart :: "string \<Rightarrow> string \<times> string" where
  "digitpart (c # u # d # r) =
     (if is_digit c \<and> u = CHR ''_'' \<and> is_digit d then apfst ((#) c) (digitpart (d # r))
      else if is_digit c then apfst ((#) c) (digitpart (u # d # r))
      else ([], c # u # d # r))"
| "digitpart (c # r) = (if is_digit c then apfst ((#) c) (digitpart r) else ([], c # r))"
| "digitpart [] = ([], [])"

definition nat_of_digits :: "string \<Rightarrow> nat" where
  "nat_of_digits ds = foldl (\<lambda>a c. 10 * a + digit_val c) 0 ds"

definition split_sign :: "string \<Rightarrow> bool \<times> string" where
  "split_sign s =
     (case s of
        [] \<Rightarrow> (False, [])
      | c # r \<Rightarrow> if c = CHR ''-'' then (True, r)
                 else if c = CHR ''+'' then (False, r)
                 else (False, s))"

definition int_of_str :: "string \<Rightarrow> py_error + int" where
  "int_of_str s =
     (case split_sign (strip_where c_isspace s) of (neg, t) \<Rightarrow>
      (case digitpart t of (ds, rest) \<Rightarrow>
         if ds = [] \<or> rest \<noteq> [] \<or> 4300 < length ds then Inl ValueError
         else Inr (if neg then - int (nat_of_digits ds) else int (nat_of_digits ds))))"

definition exponent :: "string \<Rightarrow> int option" where
  "exponent s =
     (case s of
        [] \<Rightarrow> Some 0
      | c # r \<Rightarrow>
          if c = CHR ''e'' \<or> c = CHR ''E'' then
            (case split_sign r of (neg, t) \<Rightarrow>
             (case digitpart t of (ds, rest) \<Rightarrow>
                if ds = [] \<or> rest \<noteq> [] then None
                else Some (if neg then - int (nat_of_digits ds) else int (nat_of_digits ds))))
          else None)"

definition float_of_str :: "string \<Rightarrow> py_error + real" where
  "float_of_str s =
     (case split_sign (strip_where c_isspace s) of (neg, t) \<Rightarrow>
        if py_lower t \<in> set [''inf'', ''infinity'', ''nan'']
        then Inr (if neg then - nonfinite else nonfinite)
        else
      (case digitpart t of (ip, r1) \<Rightarrow>
      (case (case r1 of
               [] \<Rightarrow> ([], r1)
             | c # r \<Rightarrow> if c = CHR ''.'' then digitpart r else ([], r1)) of (fp, r2) \<Rightarrow>
         if ip = [] \<and> fp = [] then Inl ValueError
         else (case exponent r2 of
                 None \<Rightarrow> Inl ValueError
               | Some e \<Rightarrow>
                   let mantissa = real (nat_of_digits (ip @ fp)) / 10 ^ length fp;
                       scaled = (if 0 \<le> e then mantissa * 10 ^ nat e else mantissa / 10 ^ nat (- e))
                   in Inr (if neg then - scaled else scaled)))))"

text \<open>
  The constructors are called with strings by the file readers and with number literals
  by \<^verbatim>\<open>main\<close>, so their numeric arguments are Python values of either kind.
  \<^verbatim>\<open>int\<close> of a float truncates towards zero.
\<close>

datatype pyval = PStr string | PInt int | PFloat real

definition py_int :: "pyval \<Rightarrow> py_error + int" where
  "py_int v =
     (case v of
        PStr s \<Rightarrow> int_of_str s
      | PInt n \<Rightarrow> Inr n
      | PFloat x \<Rightarrow> Inr (if 0 \<le> x then \<lfloor>x\<rfloor> else \<lceil>x\<rceil>))"

definition py_float :: "pyval \<Rightarrow> py_error + real" where
  "py_float v =
     (case v of
        PStr s \<Rightarrow> float_of_str s
      | PInt n \<Rightarrow> Inr (real_of_int n)
      | PFloat x \<Rightarrow> Inr x)"

section \<open>Utility functions\<close>

definition calculate_earnings :: "real \<Rightarrow> real \<Rightarrow> int \<Rightarrow> real" where
  "calculate_earnings current_price purchase_price shares =
     (current_price - purchase_price) * real_of_int shares"

definition calculate_percentage_yield :: "real \<Rightarrow> real \<Rightarrow> py_error + real" where
  "calculate_percentage_yield current_price purchase_price =
     (case truediv (current_price - purchase_price) purchase_price of
        Inl e \<Rightarrow> Inl e
      | Inr q \<Rightarrow> Inr (q * 100))"

definition calculate_yearly_return :: "date \<Rightarrow> real \<Rightarrow> real \<Rightarrow> string \<Rightarrow> py_error + real" where
  "calculate_yearly_return today current_price purchase_price purchase_date_str =
     (case strptime purchase_date_str of
        Inl e \<Rightarrow> Inl e
      | Inr purchase_date \<Rightarrow>
          let years_held = real_of_int (timedelta_days today purchase_date) / 365.25
          in if years_held \<le> 0 then Inr 0
             else (case truediv (current_price - purchase_price) purchase_price of
                     Inl e \<Rightarrow> Inl e
                   | Inr total_return \<Rightarrow>
                       (case truediv total_return years_held of
                          Inl e \<Rightarrow> Inl e
                        | Inr r \<Rightarrow> Inr (r * 100))))"

section \<open>Classes\<close>

text \<open>
  \<^verbatim>\<open>class Bond(Investment)\<close> is the record extension: a bond has every field of an
  investment, and the methods it inherits are the functions on the record scheme. The
  one method it overrides, \<^verbatim>\<open>earnings\<close>, is \<open>Bond_earnings\<close>.
\<close>

record Investment =
  purchase_id :: string
  symbol :: string
  quantity :: int
  purchase_price :: real
  current_price :: real
  purchase_date :: string

record Bond = Investment +
  coupon :: real
  yield_rate :: real

definition earnings :: "'a Investment_scheme \<Rightarrow> real" where
  "earnings self = calculate_earnings (current_price self) (purchase_price self) (quantity self)"

definition percent_yield :: "'a Investment_scheme \<Rightarrow> py_error + real" where
  "percent_yield self = calculate_percentage_yield (current_price self) (purchase_price self)"

definition yearly_return :: "date \<Rightarrow> 'a Investment_scheme \<Rightarrow> py_error + real" where
  "yearly_return today self =
     calculate_yearly_return today (current_price self) (purchase_price self) (purchase_date self)"

definition Bond_earnings :: "Bond \<Rightarrow> real" where
  "Bond_earnings self =
     earnings self + (real_of_int (quantity self) * purchase_price self * yield_rate self)"

text \<open>
  The constructors. \<^verbatim>\<open>Investment.__init__\<close> converts quantity, purchase price and
  current price in that order and stores the other arguments as given;
  \<^verbatim>\<open>Bond.__init__\<close> runs it first, then converts the coupon, then the yield rate.
  \<^verbatim>\<open>yield_rate.strip('%')\<close> needs a string: a number has no such method.
\<close>

definition Investment_init ::
  "string \<Rightarrow> string \<Rightarrow> pyval \<Rightarrow> pyval \<Rightarrow> pyval \<Rightarrow> string \<Rightarrow> py_error + Investment" where
  "Investment_init pid symb qty p_price c_price p_date =
     (case py_int qty of
        Inl e \<Rightarrow> Inl e
      | Inr q \<Rightarrow>
     (case py_float p_price of
        Inl e \<Rightarrow> Inl e
      | Inr pp \<Rightarrow>
     (case py_float c_price of
        Inl e \<Rightarrow> Inl e
      | Inr cp \<Rightarrow>
          Inr \<lparr>purchase_id = pid, symbol = symb, quantity = q, purchase_price = pp,
               current_price = cp, purchase_date = p_date\<rparr>)))"

definition Bond_init ::
  "string \<Rightarrow> string \<Rightarrow> pyval \<Rightarrow> pyval \<Rightarrow> pyval \<Rightarrow> pyval \<Rightarrow> pyval \<Rightarrow> string \<Rightarrow> py_error + Bond" where
  "Bond_init pid symb qty p_price c_price cpn yld p_date =
     (case Investment_init pid symb qty p_price c_price p_date of
        Inl e \<Rightarrow> Inl e
      | Inr base \<Rightarrow>
     (case py_float cpn of
        Inl e \<Rightarrow> Inl e
      | Inr c \<Rightarrow>
     (case yld of
        PStr s \<Rightarrow>
          (case float_of_str (py_strip_chars ''%'' s) of
             Inl e \<Rightarrow> Inl e
           | Inr y \<Rightarrow> Inr (Investment.extend base \<lparr>coupon = c, yield_rate = y / 100\<rparr>))
      | _ \<Rightarrow> Inl AttributeError)))"

record Investor =
  investor_id :: string
  name :: string
  address :: string
  phone :: string

section \<open>File input\<close>

text \<open>
  A readable text file is the list of its lines as Python's file iteration yields them
  (each with its line end); a file that cannot be opened is \<open>None\<close>, and \<^verbatim>\<open>open\<close> raises
  \<^verbatim>\<open>OSError\<close>. What the program prints is a list of messages.
  Each reader mutates its result list inside \<^verbatim>\<open>try\<close>, so the holdings appended before an
  exception are still there when \<^verbatim>\<open>except Exception\<close> has printed the message and the
  function returns the list.
\<close>

type_synonym files = "string \<Rightarrow> string list option"

datatype message =
    StockFileError string py_error
  | BondFileError string py_error
  | ReportFailed string py_error
  | CsvFailed string py_error
  | VisualizationFailed py_error
  | SavedChart
  | FilterOptions
  | EarningsLine string real
  | YearlyLine string real
  | LookupLine string real real
  | NotFound
  | Invalid

text \<open>The body of the loop of \<^verbatim>\<open>read_stocks\<close>: unpack exactly five fields, construct.\<close>

definition stock_of_line :: "nat \<Rightarrow> string \<Rightarrow> py_error + Investment" where
  "stock_of_line idx line =
     (case py_split CHR '','' (py_strip line) of
        [symb, qty, p_price, c_price, p_date] \<Rightarrow>
          Investment_init (''S'' @ py_str idx) symb (PStr qty) (PStr p_price) (PStr c_price) p_date
      | _ \<Rightarrow> Inl ValueError)"

fun read_stocks_lines ::
  "nat \<Rightarrow> string list \<Rightarrow> Investment list \<Rightarrow> Investment list \<times> py_error option" where
  "read_stocks_lines idx [] investments = (investments, None)"
| "read_stocks_lines idx (line # rest) investments =
     (case stock_of_line idx line of
        Inl e \<Rightarrow> (investments, Some e)
      | Inr investment \<Rightarrow> read_stocks_lines (Suc idx) rest (investments @ [investment]))"

definition read_stocks :: "files \<Rightarrow> string \<Rightarrow> Investment list \<times> message list" where
  "read_stocks fs filename =
     (case fs filename of
        None \<Rightarrow> ([], [StockFileError filename OSError])
      | Some lines \<Rightarrow>
          (case read_stocks_lines 1 lines [] of
             (investments, None) \<Rightarrow> (investments, [])
           | (investments, Some e) \<Rightarrow> (investments, [StockFileError filename e])))"

text \<open>
  The body of the loop of \<^verbatim>\<open>read_bonds\<close>: \<open>None\<close> when the line has not seven fields and
  the \<^verbatim>\<open>if\<close> passes over it, else the outcome of the constructor.
\<close>

definition bond_of_line :: "nat \<Rightarrow> string \<Rightarrow> (py_error + Bond) option" where
  "bond_of_line idx line =
     (let parts = py_split CHR '','' (py_strip line)
      in if length parts = 7 then
           (case parts of
              [symb, qty, p_price, c_price, cpn, yld, p_date] \<Rightarrow>
                Some (Bond_init (''B'' @ py_str idx) symb (PStr qty) (PStr p_price) (PStr c_price)
                        (PStr cpn) (PStr yld) p_date)
            | _ \<Rightarrow> Some (Inl ValueError))
         else None)"

fun read_bonds_lines ::
  "nat \<Rightarrow> string list \<Rightarrow> Bond list \<Rightarrow> Bond list \<times> py_error option" where
  "read_bonds_lines idx [] bonds = (bonds, None)"
| "read_bonds_lines idx (line # rest) bonds =
     (case bond_of_line idx line of
        None \<Rightarrow> read_bonds_lines (Suc idx) rest bonds
      | Some (Inl e) \<Rightarrow> (bonds, Some e)
      | Some (Inr b) \<Rightarrow> read_bonds_lines (Suc idx) rest (bonds @ [b]))"

definition read_bonds :: "files \<Rightarrow> string \<Rightarrow> Bond list \<times> message list" where
  "read_bonds fs filename =
     (case fs filename of
        None \<Rightarrow> ([], [BondFileError filename OSError])
      | Some lines \<Rightarrow>
          (case read_bonds_lines 1 lines [] of
             (bonds, None) \<Rightarrow> (bonds, [])
           | (bonds, Some e) \<Rightarrow> (bonds, [BondFileError filename e])))"

section \<open>The SQLite store\<close>

text \<open>
  The database file holds at most the two tables. A table with a primary key is a finite
  map from the key to the row; a table that does not exist yet is \<open>None\<close>.
  \<^verbatim>\<open>CREATE TABLE IF NOT EXISTS\<close> makes a missing table empty and leaves an existing one;
  \<^verbatim>\<open>INSERT OR REPLACE\<close> stores the row under its key, in place of the row that had it.
  The \<^verbatim>\<open>sqlite3\<close> module binds a Python \<^verbatim>\<open>int\<close> as a 64-bit integer and raises
  \<^verbatim>\<open>OverflowError\<close> for one that does not fit. A float is bound whatever it is, and no
  column is declared \<^verbatim>\<open>NOT NULL\<close>, so no price makes an insert fail (SQLite keeps a NaN
  as \<^verbatim>\<open>NULL\<close>; the row of the model keeps the real). The two \<^verbatim>\<open>CREATE\<close> statements run outside
  a transaction; the inserts are one transaction, durable at \<^verbatim>\<open>conn.commit()\<close> and lost
  when an exception leaves the function before.
\<close>

type_synonym stock_row = "string \<times> string \<times> int \<times> real \<times> real \<times> string"
type_synonym bond_row = "string \<times> string \<times> int \<times> real \<times> real \<times> real \<times> real \<times> string"

record store =
  stocks_table :: "(string \<rightharpoonup> stock_row) option"
  bonds_table :: "(string \<rightharpoonup> bond_row) option"

datatype conn_event = Connect | Commit | Close

record database =
  openable :: bool
  tables :: store
  conn_log :: "conn_event list"

definition create_table_if_not_exists :: "('k \<rightharpoonup> 'r) option \<Rightarrow> ('k \<rightharpoonup> 'r)" where
  "create_table_if_not_exists t = (case t of None \<Rightarrow> Map.empty | Some rows \<Rightarrow> rows)"

definition sqlite_integer :: "int \<Rightarrow> bool" where
  "sqlite_integer n = (- (2 ^ 63) \<le> n \<and> n < 2 ^ 63)"

definition stock_values :: "Investment \<Rightarrow> stock_row" where
  "stock_values investment =
     (purchase_id investment, symbol investment, quantity investment,
      purchase_price investment, current_price investment, purchase_date investment)"

definition bond_values :: "Bond \<Rightarrow> bond_row" where
  "bond_values bond =
     (purchase_id bond, symbol bond, quantity bond, purchase_price bond, current_price bond,
      coupon bond, yield_rate bond, purchase_date bond)"

fun insert_stocks ::
  "Investment list \<Rightarrow> (string \<rightharpoonup> stock_row) \<Rightarrow> py_error + (string \<rightharpoonup> stock_row)" where
  "insert_stocks [] t = Inr t"
| "insert_stocks (investment # rest) t =
     (if sqlite_integer (quantity investment)
      then insert_stocks rest (t(purchase_id investment \<mapsto> stock_values investment))
      else Inl OverflowError)"

fun insert_bonds ::
  "Bond list \<Rightarrow> (string \<rightharpoonup> bond_row) \<Rightarrow> py_error + (string \<rightharpoonup> bond_row)" where
  "insert_bonds [] t = Inr t"
| "insert_bonds (bond # rest) t =
     (if sqlite_integer (quantity bond)
      then insert_bonds rest (t(purchase_id bond \<mapsto> bond_values bond))
      else Inl OverflowError)"

text \<open>
  \<^verbatim>\<open>setup_database\<close> returns the open connection; there is one connection in a run, so the
  model returns the database file with the connection's history, and \<open>Inr ()\<close> for the
  handle.
\<close>

definition setup_database ::
  "database \<Rightarrow> Investment list \<Rightarrow> Bond list \<Rightarrow> (py_error + unit) \<times> database" where
  "setup_database db stocks bonds =
     (if \<not> openable db then (Inl OperationalError, db)
      else
        let st = create_table_if_not_exists (stocks_table (tables db));
            bt = create_table_if_not_exists (bonds_table (tables db));
            created = db\<lparr>tables := \<lparr>stocks_table = Some st, bonds_table = Some bt\<rparr>,
                         conn_log := conn_log db @ [Connect]\<rparr>
        in (case insert_stocks stocks st of
              Inl e \<Rightarrow> (Inl e, created)
            | Inr st' \<Rightarrow>
           (case insert_bonds bonds bt of
              Inl e \<Rightarrow> (Inl e, created)
            | Inr bt' \<Rightarrow>
                (Inr (),
                 db\<lparr>tables := \<lparr>stocks_table = Some st', bonds_table = Some bt'\<rparr>,
                    conn_log := conn_log db @ [Connect, Commit]\<rparr>))))"

section \<open>Reports, menu and the run\<close>

text \<open>
  The state a run works on: the input files, which output paths can be opened for
  writing and what has been written to them, the lines waiting on standard input, what
  has been printed, and the database file. Formatting is left out: a written line or a
  printed message carries the values that the source formats into it.
  \<^verbatim>\<open>visualize_json\<close> lives in \<^verbatim>\<open>json\<close> and \<^verbatim>\<open>matplotlib\<close>; \<open>chart_fault\<close> gives the
  exception its body raises for a file and a portfolio, if any.
\<close>

datatype out_line =
    InvestorLine string
  | AddressLine string
  | PhoneLine string
  | StocksHeading
  | BondsHeading
  | StockLine string string int real real real
  | BondLine string string int real string
  | CsvHeader
  | CsvRow string real real real

record world =
  files :: files
  writable :: "string \<Rightarrow> bool"
  written :: "string \<rightharpoonup> out_line list"
  stdin :: "string list"
  stdout :: "message list"
  portfolio_db :: database
  chart_fault :: "string \<Rightarrow> (string \<rightharpoonup> int) \<Rightarrow> py_error option"

text \<open>
  \<^verbatim>\<open>for x in xs: f.write(...)\<close> inside \<^verbatim>\<open>with open(...)\<close>: the lines written before an
  exception stay in the file.
\<close>

fun write_lines ::
  "('a \<Rightarrow> py_error + out_line) \<Rightarrow> 'a list \<Rightarrow> out_line list \<Rightarrow> out_line list \<times> py_error option" where
  "write_lines mk [] out = (out, None)"
| "write_lines mk (x # xs) out =
     (case mk x of
        Inl e \<Rightarrow> (out, Some e)
      | Inr l \<Rightarrow> write_lines mk xs (out @ [l]))"

definition stock_report_line :: "date \<Rightarrow> Investment \<Rightarrow> py_error + out_line" where
  "stock_report_line today s =
     (case percent_yield s of
        Inl e \<Rightarrow> Inl e
      | Inr y \<Rightarrow>
     (case yearly_return today s of
        Inl e \<Rightarrow> Inl e
      | Inr r \<Rightarrow> Inr (StockLine (purchase_id s) (symbol s) (quantity s) (earnings s) y r)))"

definition bond_report_line :: "Bond \<Rightarrow> py_error + out_line" where
  "bond_report_line b =
     Inr (BondLine (purchase_id b) (symbol b) (quantity b) (Bond_earnings b) (purchase_date b))"

definition write_report ::
  "date \<Rightarrow> Investor \<Rightarrow> Investment list \<Rightarrow> Bond list \<Rightarrow> string \<Rightarrow> world \<Rightarrow> world" where
  "write_report today investor stocks bonds output_file w =
     (if \<not> writable w output_file
      then w\<lparr>stdout := stdout w @ [ReportFailed output_file OSError]\<rparr>
      else
        (case write_lines (stock_report_line today) stocks
                [InvestorLine (name investor), AddressLine (address investor),
                 PhoneLine (phone investor), StocksHeading] of
           (out, Some e) \<Rightarrow>
             w\<lparr>written := (written w)(output_file \<mapsto> out),
               stdout := stdout w @ [ReportFailed output_file e]\<rparr>
         | (out, None) \<Rightarrow>
        (case write_lines bond_report_line bonds (out @ [BondsHeading]) of
           (out', Some e) \<Rightarrow>
             w\<lparr>written := (written w)(output_file \<mapsto> out'),
               stdout := stdout w @ [ReportFailed output_file e]\<rparr>
         | (out', None) \<Rightarrow> w\<lparr>written := (written w)(output_file \<mapsto> out')\<rparr>)))"

definition csv_row :: "date \<Rightarrow> Investment \<Rightarrow> py_error + out_line" where
  "csv_row today s =
     (case percent_yield s of
        Inl e \<Rightarrow> Inl e
      | Inr y \<Rightarrow>
     (case yearly_return today s of
        Inl e \<Rightarrow> Inl e
      | Inr r \<Rightarrow> Inr (CsvRow (symbol s) (earnings s) y r)))"

definition export_csv :: "date \<Rightarrow> Investment list \<Rightarrow> string \<Rightarrow> world \<Rightarrow> world" where
  "export_csv today stocks csv_file w =
     (if \<not> writable w csv_file
      then w\<lparr>stdout := stdout w @ [CsvFailed csv_file OSError]\<rparr>
      else
        (case write_lines (csv_row today) stocks [CsvHeader] of
           (out, Some e) \<Rightarrow>
             w\<lparr>written := (written w)(csv_file \<mapsto> out),
               stdout := stdout w @ [CsvFailed csv_file e]\<rparr>
         | (out, None) \<Rightarrow> w\<lparr>written := (written w)(csv_file \<mapsto> out)\<rparr>))"

definition visualize_json :: "string \<Rightarrow> (string \<rightharpoonup> int) \<Rightarrow> world \<Rightarrow> world" where
  "visualize_json json_file portfolio w =
     (case chart_fault w json_file portfolio of
        Some e \<Rightarrow> w\<lparr>stdout := stdout w @ [VisualizationFailed e]\<rparr>
      | None \<Rightarrow> w\<lparr>stdout := stdout w @ [SavedChart]\<rparr>)"

text \<open>
  The menu. \<^verbatim>\<open>input\<close> takes the next line of standard input and raises \<^verbatim>\<open>EOFError\<close>
  when there is none. \<^verbatim>\<open>norm\<close> is \<^verbatim>\<open>ch.strip().lower().split()[0]\<close>: the index raises
  \<^verbatim>\<open>IndexError\<close> on the empty list. \<^verbatim>\<open>sorted(..., reverse=True)\<close> computes every key
  first and keeps equal keys in their order: it sorts the reversed list and reverses
  again.
\<close>

definition norm_choice :: "string \<Rightarrow> py_error + string" where
  "norm_choice ch =
     (case py_split_ws (py_lower (py_strip ch)) of
        [] \<Rightarrow> Inl IndexError
      | tok # _ \<Rightarrow> Inr tok)"

fun yearly_keys :: "date \<Rightarrow> Investment list \<Rightarrow> py_error + (real \<times> Investment) list" where
  "yearly_keys today [] = Inr []"
| "yearly_keys today (s # ss) =
     (case yearly_return today s of
        Inl e \<Rightarrow> Inl e
      | Inr k \<Rightarrow>
     (case yearly_keys today ss of
        Inl e \<Rightarrow> Inl e
      | Inr ks \<Rightarrow> Inr ((k, s) # ks)))"

definition sorted_by_yearly_return :: "date \<Rightarrow> Investment list \<Rightarrow> py_error + message list" where
  "sorted_by_yearly_return today stocks =
     (case yearly_keys today stocks of
        Inl e \<Rightarrow> Inl e
      | Inr ks \<Rightarrow> Inr (map (\<lambda>(k, s). YearlyLine (symbol s) k) (rev (sort_key fst (rev ks)))))"

definition lookup :: "date \<Rightarrow> Investment list \<Rightarrow> string \<Rightarrow> py_error + message" where
  "lookup today stocks sy =
     (case filter (\<lambda>s. symbol s = sy) stocks of
        [] \<Rightarrow> Inr NotFound
      | s # _ \<Rightarrow>
          (case yearly_return today s of
             Inl e \<Rightarrow> Inl e
           | Inr r \<Rightarrow> Inr (LookupLine (symbol s) (earnings s) r)))"

fun interactive_portfolio_filter ::
  "date \<Rightarrow> Investment list \<Rightarrow> string list \<Rightarrow> message list
     \<Rightarrow> (py_error + unit) \<times> string list \<times> message list" where
  "interactive_portfolio_filter today stocks [] out = (Inl EOFError, [], out @ [FilterOptions])"
| "interactive_portfolio_filter today stocks (line # rest) out =
     (case norm_choice line of
        Inl e \<Rightarrow> (Inl e, rest, out @ [FilterOptions])
      | Inr choice \<Rightarrow>
          if choice \<in> set [''1'', ''positive''] then
            interactive_portfolio_filter today stocks rest
              (out @ FilterOptions #
                 map (\<lambda>s. EarningsLine (symbol s) (earnings s)) (filter (\<lambda>s. earnings s > 0) stocks))
          else if choice \<in> set [''2'', ''negative''] then
            interactive_portfolio_filter today stocks rest
              (out @ FilterOptions #
                 map (\<lambda>s. EarningsLine (symbol s) (earnings s)) (filter (\<lambda>s. earnings s < 0) stocks))
          else if choice \<in> set [''3'', ''sort''] then
            (case sorted_by_yearly_return today stocks of
               Inl e \<Rightarrow> (Inl e, rest, out @ [FilterOptions])
             | Inr ms \<Rightarrow> interactive_portfolio_filter today stocks rest (out @ FilterOptions # ms))
          else if choice \<in> set [''4'', ''lookup''] then
            (case rest of
               [] \<Rightarrow> (Inl EOFError, [], out @ [FilterOptions])
             | sym_line # rest' \<Rightarrow>
                 (case lookup today stocks (py_upper sym_line) of
                    Inl e \<Rightarrow> (Inl e, rest', out @ [FilterOptions])
                  | Inr m \<Rightarrow>
                      interactive_portfolio_filter today stocks rest' (out @ [FilterOptions, m])))
          else if choice \<in> set [''5'', ''exit'', ''quit''] then (Inr (), rest, out @ [FilterOptions])
          else interactive_portfolio_filter today stocks rest (out @ [FilterOptions, Invalid]))"

text \<open>
  \<^verbatim>\<open>main\<close>. An exception that leaves \<^verbatim>\<open>setup_database\<close> or the menu leaves \<^verbatim>\<open>main\<close> at that
  point: there is no \<^verbatim>\<open>try\<close> in \<^verbatim>\<open>main\<close>, and \<^verbatim>\<open>conn.close()\<close> is its last statement.
\<close>

definition hardcoded_bond :: "py_error + Bond" where
  "hardcoded_bond =
     Bond_init ''B999'' ''GT2:GOV'' (PInt 200) (PFloat 100.02) (PFloat 100.05) (PFloat 1.38)
       (PStr ''1.35%'') ''8/1/2017''"

definition conn_close :: "database \<Rightarrow> database" where
  "conn_close db = db\<lparr>conn_log := conn_log db @ [Close]\<rparr>"

definition portfolio_map :: "Investment list \<Rightarrow> (string \<rightharpoonup> int)" where
  "portfolio_map stocks = fold (\<lambda>s m. m(symbol s \<mapsto> quantity s)) stocks Map.empty"

definition main :: "date \<Rightarrow> world \<Rightarrow> (py_error + unit) \<times> world" where
  "main today w =
     (let investor = \<lparr>investor_id = ''INV001'', name = ''Peyton Holdbrooks'',
                      address = ''Denver, CO'', phone = ''(334)500-2140''\<rparr>;
          stock_file = ''Lesson6_Data_Stocks.txt'';
          bond_file = ''Week6_Data_Bonds.txt'';
          json_file = ''AllStocks.json''
      in
      (case read_stocks (files w) stock_file of (stocks, m1) \<Rightarrow>
      (case read_bonds (files w) bond_file of (bonds0, m2) \<Rightarrow>
      (case hardcoded_bond of
         Inl e \<Rightarrow> (Inl e, w\<lparr>stdout := stdout w @ m1 @ m2\<rparr>)
       | Inr b999 \<Rightarrow>
      (case setup_database (portfolio_db w) stocks (bonds0 @ [b999]) of
         (Inl e, db) \<Rightarrow> (Inl e, w\<lparr>stdout := stdout w @ m1 @ m2, portfolio_db := db\<rparr>)
       | (Inr conn, db) \<Rightarrow>
           let w1 = w\<lparr>stdout := stdout w @ m1 @ m2, portfolio_db := db\<rparr>;
               w2 = write_report today investor stocks (bonds0 @ [b999]) ''Investment_Report.txt'' w1;
               w3 = export_csv today stocks ''stock_summary.csv'' w2
           in (case interactive_portfolio_filter today stocks (stdin w3) (stdout w3) of
                 (Inl e, rest, out) \<Rightarrow> (Inl e, w3\<lparr>stdin := rest, stdout := out\<rparr>)
               | (Inr done, rest, out) \<Rightarrow>
                   let w4 = visualize_json json_file (portfolio_map stocks)
                              (w3\<lparr>stdin := rest, stdout := out\<rparr>)
                   in (Inr (), w4\<lparr>portfolio_db := conn_close (portfolio_db w4)\<rparr>)))))))"

section \<open>Example inputs\<close>

text \<open>
  A stock file whose second line has three fields, and a bond file whose first line is a
  stock record of five fields.
\<close>

definition example_stock_lines :: "string list" where
  "example_stock_lines =
     [''AAPL,10,100.0,150.5,8/1/2017'' @ [CHR 0x0A],
      ''MSFT,5,10'' @ [CHR 0x0A],
      ''IBM,1,1,1,1/1/2020'']"

definition example_bond_lines :: "string list" where
  "example_bond_lines =
     [''AAPL,10,100.0,150.5,8/1/2017'' @ [CHR 0x0A],
      ''GT2:GOV,200,100.02,100.05,1.38,1.35%,8/1/2017'' @ [CHR 0x0A]]"

definition example_files :: files where
  "example_files f =
     (if f = ''Lesson6_Data_Stocks.txt'' then Some example_stock_lines
      else if f = ''Week6_Data_Bonds.txt'' then Some example_bond_lines
      else None)"

definition example_stock :: Investment where
  "example_stock =
     \<lparr>purchase_id = ''S1'', symbol = ''AAPL'', quantity = 10, purchase_price = 100,
      current_price = 150.5, purchase_date = ''8/1/2017''\<rparr>"

definition example_bond :: Bond where
  "example_bond =
     \<lparr>purchase_id = ''B2'', symbol = ''GT2:GOV'', quantity = 200, purchase_price = 100.02,
      current_price = 100.05, purchase_date = ''8/1/2017'', coupon = 1.38, yield_rate = 0.0135\<rparr>"

text \<open>A database file that can be opened and has no table yet.\<close>

definition example_db :: database where
  "example_db =
     \<lparr>openable = True, tables = \<lparr>stocks_table = None, bonds_table = None\<rparr>, conn_log = []\<rparr>"

text \<open>
  The holdings of a run, as \<open>main\<close> passes them to \<open>setup_database\<close>: what the two readers
  return for the two input files, and the bond that \<open>main\<close> constructs from literals,
  appended to the bonds. \<open>b999\<close> is the value of that constructor call, \<open>hardcoded_bond\<close>.
\<close>

definition b999 :: Bond where
  "b999 =
     \<lparr>purchase_id = ''B999'', symbol = ''GT2:GOV'', quantity = 200, purchase_price = 100.02,
      current_price = 100.05, purchase_date = ''8/1/2017'', coupon = 1.38, yield_rate = 0.0135\<rparr>"

definition run_stocks :: "files \<Rightarrow> Investment list" where
  "run_stocks fs = fst (read_stocks fs ''Lesson6_Data_Stocks.txt'')"

definition run_bonds :: "files \<Rightarrow> Bond list" where
  "run_bonds fs = fst (read_bonds fs ''Week6_Data_Bonds.txt'') @ [b999]"

text \<open>
  A run on the example files whose user enters \<open>5\<close>, on a fresh database or on one that an
  earlier run left with a row \<open>S7\<close>.
\<close>

definition example_today :: date where
  "example_today = \<lparr>year = 2025, month = 6, day = 9\<rparr>"

definition example_world :: world where
  "example_world =
     \<lparr>files = example_files, writable = (\<lambda>path. True), written = Map.empty,
      stdin = [''5''], stdout = [], portfolio_db = example_db,
      chart_fault = (\<lambda>json_file portfolio. None)\<rparr>"

definition example_old_db :: database where
  "example_old_db =
     \<lparr>openable = True,
      tables = \<lparr>stocks_table = Some [''S7'' \<mapsto> (''S7'', ''TSLA'', 3, 10, 20, ''1/2/2019'')],
                bonds_table = Some Map.empty\<rparr>,
      conn_log = []\<rparr>"

section \<open>Metrics of the two holding kinds\<close>

text \<open>
  C1. For every bond, \<open>earnings()\<close> is the capital gain
  \<open>(current_price - purchase_price) * quantity\<close>, which is the base \<open>earnings()\<close> on the
  same fields, plus the income term \<open>quantity * purchase_price * yield_rate\<close>.
  \<open>percent_yield()\<close> and \<open>yearly_return()\<close> of a bond are the base methods on its
  investment fields, and changing the coupon or the yield rate changes neither.
\<close>

theorem bond_metrics:
  "Bond_earnings b
     = (current_price b - purchase_price b) * real_of_int (quantity b)
       + real_of_int (quantity b) * purchase_price b * yield_rate b
   \<and> Bond_earnings b
     = earnings (Investment.truncate b) + real_of_int (quantity b) * purchase_price b * yield_rate b
   \<and> percent_yield b = percent_yield (Investment.truncate b)
   \<and> yearly_return today b = yearly_return today (Investment.truncate b)
   \<and> percent_yield (b\<lparr>coupon := c, yield_rate := y\<rparr>) = percent_yield b
   \<and> yearly_return today (b\<lparr>coupon := c, yield_rate := y\<rparr>) = yearly_return today b"
  by (simp add: Bond_earnings_def earnings_def calculate_earnings_def percent_yield_def
      yearly_return_def Investment.truncate_def)

text \<open>
  The hardcoded bond: a capital gain of 6 and an income of 270.054; its yield is that of
  its investment part.
\<close>

theorem bond_metrics_witness:
  "Bond_earnings b999 = 6 + 270.054
   \<and> earnings (Investment.truncate b999) = 6
   \<and> percent_yield b999 = percent_yield (Investment.truncate b999)
   \<and> yearly_return example_today b999 = yearly_return example_today (Investment.truncate b999)"
  using bond_metrics [of b999 example_today]
  by (simp add: b999_def earnings_def calculate_earnings_def Investment.truncate_def)

text \<open>
  C5. With a purchase price other than 0, \<open>percent_yield\<close> is
  \<open>(current_price - purchase_price) / purchase_price * 100\<close>; with purchase price 0 the
  division raises \<open>ZeroDivisionError\<close>, for the utility function and for the method.
\<close>

theorem percent_yield_formula:
  "(pp \<noteq> 0 \<longrightarrow> calculate_percentage_yield cp pp = Inr ((cp - pp) / pp * 100))
   \<and> (pp = 0 \<longrightarrow> calculate_percentage_yield cp pp = Inl ZeroDivisionError)
   \<and> (purchase_price self \<noteq> 0 \<longrightarrow>
        percent_yield self
          = Inr ((current_price self - purchase_price self) / purchase_price self * 100))
   \<and> (purchase_price self = 0 \<longrightarrow> percent_yield self = Inl ZeroDivisionError)"
  by (simp add: calculate_percentage_yield_def truediv_def percent_yield_def)

text \<open>The formula at a gain of 20 percent, and the fault at purchase price 0.\<close>

theorem percent_yield_formula_witness:
  "calculate_percentage_yield 180 150 = Inr 20
   \<and> calculate_percentage_yield 180 0 = Inl ZeroDivisionError
   \<and> percent_yield \<lparr>purchase_id = ''S1'', symbol = ''AAPL'', quantity = 10,
        purchase_price = 150, current_price = 180, purchase_date = ''8/1/2017''\<rparr> = Inr 20
   \<and> percent_yield \<lparr>purchase_id = ''S1'', symbol = ''AAPL'', quantity = 10,
        purchase_price = 0, current_price = 180, purchase_date = ''8/1/2017''\<rparr>
       = Inl ZeroDivisionError"
  using percent_yield_formula [of 150 180 "\<lparr>purchase_id = ''S1'', symbol = ''AAPL'', quantity = 10,
        purchase_price = 150, current_price = 180, purchase_date = ''8/1/2017''\<rparr>"]
    percent_yield_formula [of 0 180 "\<lparr>purchase_id = ''S1'', symbol = ''AAPL'', quantity = 10,
        purchase_price = 0, current_price = 180, purchase_date = ''8/1/2017''\<rparr>"]
  by simp

section \<open>Day numbers\<close>

text \<open>
  The day number grows with the calendar order on dates that exist, so a purchase date
  after today has a negative day count.
\<close>

lemma div_pred:
  fixes y n :: int
  assumes "0 < n"
  shows "y div n = (y - 1) div n + (if y mod n = 0 then 1 else 0)"
proof (cases "y mod n = 0")
  case True
  have "y = n * (y div n)"
    using True by (simp add: mod_eq_0_iff_dvd)
  then have "y - 1 = n * (y div n - 1) + (n - 1)"
    by (simp add: algebra_simps)
  moreover have "0 \<le> n - 1" "n - 1 < n"
    using assms by simp_all
  ultimately have "(y - 1) div n = y div n - 1"
    by (rule int_div_pos_eq)
  with True show ?thesis by simp
next
  case False
  have "0 \<le> y mod n" "y mod n < n"
    using assms by simp_all
  with False have r: "0 \<le> y mod n - 1" "y mod n - 1 < n"
    by linarith+
  have "y - 1 = n * (y div n) + (y mod n - 1)"
    by (simp add: algebra_simps)
  then have "(y - 1) div n = y div n"
    using r by (rule int_div_pos_eq)
  with False show ?thesis by simp
qed

lemma days_before_year_next:
  "days_before_year (y + 1) = days_before_year y + (if is_leap y then 366 else 365)"
proof -
  have d: "y mod 400 = 0 \<Longrightarrow> y mod 100 = 0" by auto
  have e: "y mod 100 = 0 \<Longrightarrow> y mod 4 = 0" by auto
  define a b c where "a = (y - 1) div 4" and "b = (y - 1) div 100" and "c = (y - 1) div 400"
  have q: "y div 4 = a + (if y mod 4 = 0 then 1 else 0)"
    "y div 100 = b + (if y mod 100 = 0 then 1 else 0)"
    "y div 400 = c + (if y mod 400 = 0 then 1 else 0)"
    unfolding a_def b_def c_def by (rule div_pred, simp)+
  have "days_before_year (y + 1) = y * 365 + y div 4 - y div 100 + y div 400"
    by (simp add: days_before_year_def)
  also have "\<dots> = (y - 1) * 365 + a - b + c + (if is_leap y then 366 else 365)"
  proof -
    consider (n4) "y mod 4 \<noteq> 0" "y mod 100 \<noteq> 0" "y mod 400 \<noteq> 0"
      | (c4) "y mod 4 = 0" "y mod 100 \<noteq> 0" "y mod 400 \<noteq> 0"
      | (c100) "y mod 4 = 0" "y mod 100 = 0" "y mod 400 \<noteq> 0"
      | (c400) "y mod 4 = 0" "y mod 100 = 0" "y mod 400 = 0"
      using d e by meson
    then show ?thesis
    proof cases
      case n4
      then show ?thesis unfolding q is_leap_def by simp
    next
      case c4
      then show ?thesis unfolding q is_leap_def by simp
    next
      case c100
      then show ?thesis unfolding q is_leap_def by simp
    next
      case c400
      then show ?thesis unfolding q is_leap_def by simp
    qed
  qed
  finally show ?thesis
    by (simp add: days_before_year_def a_def b_def c_def)
qed

lemma days_before_year_mono: "y \<le> y' \<Longrightarrow> days_before_year y \<le> days_before_year y'"
proof (induction y' rule: int_ge_induct)
  case base
  show ?case by simp
next
  case (step i)
  have "days_before_year i \<le> days_before_year (i + 1)"
    by (simp add: days_before_year_next)
  with step show ?case by linarith
qed

lemma month_cases:
  fixes m :: int
  assumes "1 \<le> m" "m \<le> 12"
  shows "m \<in> {1, 2, 3, 4, 5, 6, 7, 8, 9, 10, 11, 12}"
proof -
  have "m = 1 \<or> m = 2 \<or> m = 3 \<or> m = 4 \<or> m = 5 \<or> m = 6 \<or> m = 7 \<or> m = 8 \<or> m = 9
      \<or> m = 10 \<or> m = 11 \<or> m = 12"
    using assms by presburger
  then show ?thesis by simp
qed

lemma days_before_month_next:
  assumes "1 \<le> m" "m < 12"
  shows "days_before_month y (m + 1) = days_before_month y m + days_in_month y m"
proof -
  have "m \<in> {1, 2, 3, 4, 5, 6, 7, 8, 9, 10, 11, 12}"
    using assms by (intro month_cases) simp_all
  with assms(2) show ?thesis
    by (auto simp: days_before_month_def days_in_month_def)
qed

lemma days_before_last_month:
  "days_before_month y 12 + days_in_month y 12 = (if is_leap y then 366 else 365)"
  by (simp add: days_before_month_def days_in_month_def)

lemma days_in_month_pos: "1 \<le> m \<Longrightarrow> m \<le> 12 \<Longrightarrow> 0 < days_in_month y m"
  using month_cases [of m] by (auto simp: days_in_month_def)

lemma days_before_month_nonneg: "1 \<le> m \<Longrightarrow> m \<le> 12 \<Longrightarrow> 0 \<le> days_before_month y m"
  using month_cases [of m] by (auto simp: days_before_month_def)

lemma days_before_month_mono:
  assumes "m \<le> m'" "1 \<le> m" "m' \<le> 12"
  shows "days_before_month y m \<le> days_before_month y m'"
  using assms
proof (induction m' rule: int_ge_induct)
  case base
  show ?case by simp
next
  case (step i)
  have "days_before_month y (i + 1) = days_before_month y i + days_in_month y i"
    using step by (intro days_before_month_next) simp_all
  moreover have "0 < days_in_month y i"
    using step by (intro days_in_month_pos) simp_all
  moreover have "days_before_month y m \<le> days_before_month y i"
    using step by simp
  ultimately show ?case by linarith
qed

lemma day_of_year_bound:
  assumes "valid_date d"
  shows "days_before_month (year d) (month d) + day d \<le> (if is_leap (year d) then 366 else 365)"
proof -
  have m: "1 \<le> month d" "month d \<le> 12" and dd: "day d \<le> days_in_month (year d) (month d)"
    using assms by (simp_all add: valid_date_def)
  have "days_before_month (year d) (month d) + days_in_month (year d) (month d)
          \<le> days_before_month (year d) 12 + days_in_month (year d) 12"
  proof (cases "month d = 12")
    case True
    then show ?thesis by simp
  next
    case False
    then have lt: "month d < 12" using m by simp
    have "days_before_month (year d) (month d + 1) \<le> days_before_month (year d) 12"
      using m lt by (intro days_before_month_mono) simp_all
    moreover have "0 < days_in_month (year d) 12"
      by (simp add: days_in_month_def)
    ultimately show ?thesis
      using days_before_month_next [OF m(1) lt, of "year d"] by linarith
  qed
  then show ?thesis
    using dd days_before_last_month [of "year d"] by linarith
qed

lemma ymd2ord_strict_mono:
  assumes "valid_date a" "valid_date b" "date_less a b"
  shows "ymd2ord a < ymd2ord b"
proof -
  have ma: "1 \<le> month a" "month a \<le> 12" and da: "1 \<le> day a"
    "day a \<le> days_in_month (year a) (month a)"
    using assms(1) by (simp_all add: valid_date_def)
  have mb: "1 \<le> month b" "month b \<le> 12" and db: "1 \<le> day b"
    using assms(2) by (simp_all add: valid_date_def)
  consider (y) "year a < year b"
    | (m) "year a = year b" "month a < month b"
    | (d) "year a = year b" "month a = month b" "day a < day b"
    using assms(3) unfolding date_less_def by meson
  then show ?thesis
  proof cases
    case y
    have "ymd2ord a \<le> days_before_year (year a + 1)"
      using day_of_year_bound [OF assms(1)]
      by (simp add: ymd2ord_def days_before_year_next)
    also have "\<dots> \<le> days_before_year (year b)"
      using y by (intro days_before_year_mono) simp
    also have "\<dots> < ymd2ord b"
      using days_before_month_nonneg [OF mb, of "year b"] db by (simp add: ymd2ord_def)
    finally show ?thesis .
  next
    case m
    have lt: "month a < 12" using m(2) mb by simp
    have "days_before_month (year a) (month a) + day a
            \<le> days_before_month (year a) (month a + 1)"
      using days_before_month_next [OF ma(1) lt, of "year a"] da by simp
    also have "\<dots> \<le> days_before_month (year a) (month b)"
      using m(2) ma mb by (intro days_before_month_mono) simp_all
    finally show ?thesis
      using m(1) db by (simp add: ymd2ord_def)
  next
    case d
    then show ?thesis by (simp add: ymd2ord_def)
  qed
qed

lemma strptime_valid: "strptime s = Inr d \<Longrightarrow> valid_date d"
  by (auto simp: strptime_def Let_def split: option.splits prod.splits if_splits)


lemma yearly_return_nonpositive:
  assumes "strptime ds = Inr pd" "ymd2ord today \<le> ymd2ord pd"
  shows "calculate_yearly_return today cp pp ds = Inr 0"
  using assms by (simp add: calculate_yearly_return_def timedelta_days_def Let_def)

lemma strptime_2017: "strptime ''8/1/2017'' = Inr \<lparr>year = 2017, month = 8, day = 1\<rparr>"
  by (simp add: strptime_def match_m_def match_d_def match_Y_def match_slash_def is_digit_def
      digit_val_def valid_date_def days_in_month_def is_leap_def)

lemma strptime_2030: "strptime ''12/31/2030'' = Inr \<lparr>year = 2030, month = 12, day = 31\<rparr>"
  by (simp add: strptime_def match_m_def match_d_def match_Y_def match_slash_def is_digit_def
      digit_val_def valid_date_def days_in_month_def is_leap_def)

section \<open>Annualised return\<close>

text \<open>
  C2. For a purchase date that parses, years held is the day count from the purchase
  date to today divided by 365.25. When it is \<open>\<le> 0\<close>, and so whenever the purchase date
  is after today, \<open>yearly_return\<close> is exactly 0 with no division (also with purchase price
  0); when it is positive and the purchase price is not 0, the result is
  \<open>((current_price - purchase_price) / purchase_price) / years_held * 100\<close>. The method
  passes the stored fields to the utility function.
\<close>

theorem yearly_return_cases:
  assumes "strptime ds = Inr pd"
  shows "(real_of_int (ymd2ord today - ymd2ord pd) / 365.25 \<le> 0 \<longrightarrow>
            calculate_yearly_return today cp pp ds = Inr 0)
       \<and> (valid_date today \<and> date_less today pd \<longrightarrow>
            calculate_yearly_return today cp pp ds = Inr 0)
       \<and> (0 < real_of_int (ymd2ord today - ymd2ord pd) / 365.25 \<and> pp \<noteq> 0 \<longrightarrow>
            calculate_yearly_return today cp pp ds
              = Inr ((cp - pp) / pp / (real_of_int (ymd2ord today - ymd2ord pd) / 365.25) * 100))
       \<and> (purchase_date self = ds \<longrightarrow>
            yearly_return today self
              = calculate_yearly_return today (current_price self) (purchase_price self) ds)"
proof -
  have "calculate_yearly_return today cp pp ds = Inr 0"
    if "real_of_int (ymd2ord today - ymd2ord pd) / 365.25 \<le> 0"
  proof -
    from that have "ymd2ord today \<le> ymd2ord pd"
      by (simp add: divide_le_0_iff)
    with assms show ?thesis by (rule yearly_return_nonpositive)
  qed
  moreover have "calculate_yearly_return today cp pp ds = Inr 0"
    if "valid_date today \<and> date_less today pd"
  proof -
    have "valid_date pd" using assms by (rule strptime_valid)
    with that have "ymd2ord today < ymd2ord pd"
      by (intro ymd2ord_strict_mono) simp_all
    then have "ymd2ord today \<le> ymd2ord pd" by simp
    with assms show ?thesis by (rule yearly_return_nonpositive)
  qed
  moreover have "calculate_yearly_return today cp pp ds
      = Inr ((cp - pp) / pp / (real_of_int (ymd2ord today - ymd2ord pd) / 365.25) * 100)"
    if "0 < real_of_int (ymd2ord today - ymd2ord pd) / 365.25 \<and> pp \<noteq> 0"
    using that assms
    by (simp add: calculate_yearly_return_def timedelta_days_def Let_def truediv_def)
  moreover have "yearly_return today self
      = calculate_yearly_return today (current_price self) (purchase_price self) ds"
    if "purchase_date self = ds"
    using that by (simp add: yearly_return_def)
  ultimately show ?thesis by blast
qed

text \<open>
  On 9 June 2025: a purchase dated 31 December 2030 returns 0 although its purchase price
  is 0, and a price doubled since 1 August 2017 (2869 days) returns 36525 / 2869.
\<close>

theorem yearly_return_cases_witness:
  "calculate_yearly_return \<lparr>year = 2025, month = 6, day = 9\<rparr> 150 0 ''12/31/2030'' = Inr 0
   \<and> calculate_yearly_return \<lparr>year = 2025, month = 6, day = 9\<rparr> 200 100 ''8/1/2017''
       = Inr (36525 / 2869)
   \<and> yearly_return \<lparr>year = 2025, month = 6, day = 9\<rparr>
        \<lparr>purchase_id = ''S1'', symbol = ''AAPL'', quantity = 10, purchase_price = 100,
         current_price = 200, purchase_date = ''8/1/2017''\<rparr>
       = Inr (36525 / 2869)"
  using
    yearly_return_cases [OF strptime_2030, of "\<lparr>year = 2025, month = 6, day = 9\<rparr>" 150 0
      "\<lparr>purchase_id = ''S1'', symbol = ''AAPL'', quantity = 10, purchase_price = 100,
         current_price = 200, purchase_date = ''8/1/2017''\<rparr>"]
    yearly_return_cases [OF strptime_2017, of "\<lparr>year = 2025, month = 6, day = 9\<rparr>" 200 100
      "\<lparr>purchase_id = ''S1'', symbol = ''AAPL'', quantity = 10, purchase_price = 100,
         current_price = 200, purchase_date = ''8/1/2017''\<rparr>"]
  by (simp add: ymd2ord_def days_before_year_def days_before_month_def is_leap_def
      valid_date_def days_in_month_def date_less_def)

section \<open>Construction\<close>

lemma strptime_error: "strptime s = Inl e \<Longrightarrow> e = ValueError"
  by (auto simp: strptime_def Let_def split: option.splits prod.splits if_splits)

lemma dropWhile_none: "\<forall>x \<in> set xs. \<not> P x \<Longrightarrow> dropWhile P xs = xs"
  by (cases xs) simp_all

lemma strip_where_none: "\<forall>x \<in> set s. \<not> P x \<Longrightarrow> strip_where P s = s"
  by (simp add: strip_where_def dropWhile_none)

lemma strip_chars_absent: "c \<notin> set s \<Longrightarrow> py_strip_chars [c] s = s"
  unfolding py_strip_chars_def by (rule strip_where_none) auto

lemmas conversion_defs =
  float_of_str_def int_of_str_def py_strip_def py_strip_chars_def strip_where_def py_isspace_def
  c_isspace_def py_lower_def upper_letters_def lower_letters_def
  split_sign_def is_digit_def exponent_def nat_of_digits_def digit_val_def py_int_def py_float_def

lemma bond_percent_example:
  "Bond_init ''B1'' ''GT2:GOV'' (PStr ''200'') (PStr ''100.02'') (PStr ''100.05'') (PStr ''1.38'')
     (PStr ''1.35%'') ''8/1/2017''
   = Inr \<lparr>purchase_id = ''B1'', symbol = ''GT2:GOV'', quantity = 200, purchase_price = 100.02,
          current_price = 100.05, purchase_date = ''8/1/2017'', coupon = 1.38,
          yield_rate = 0.0135\<rparr>"
  by (simp add: Bond_init_def Investment_init_def conversion_defs Investment.extend_def)

lemma bond_bare_example:
  "Bond_init ''B1'' ''GT2:GOV'' (PStr ''200'') (PStr ''100.02'') (PStr ''100.05'') (PStr ''1.38'')
     (PStr ''0.0135'') ''8/1/2017''
   = Inr \<lparr>purchase_id = ''B1'', symbol = ''GT2:GOV'', quantity = 200, purchase_price = 100.02,
          current_price = 100.05, purchase_date = ''8/1/2017'', coupon = 1.38,
          yield_rate = 0.000135\<rparr>"
  by (simp add: Bond_init_def Investment_init_def conversion_defs Investment.extend_def)

lemma Investment_init_date:
  "Investment_init pid symb qty pp cp d'
     = map_sum id (\<lambda>i. i\<lparr>purchase_date := d'\<rparr>) (Investment_init pid symb qty pp cp d)"
  by (simp add: Investment_init_def split: sum.splits)

lemma Bond_init_date:
  "Bond_init pid symb qty pp cp cpn yld d'
     = map_sum id (\<lambda>i. i\<lparr>purchase_date := d'\<rparr>) (Bond_init pid symb qty pp cp cpn yld d)"
  by (simp add: Bond_init_def Investment_init_def Investment.extend_def
      split: sum.splits pyval.splits)

lemma strptime_iso_date: "strptime ''2017-08-01'' = Inl ValueError"
  by (simp add: strptime_def match_m_def match_d_def match_Y_def match_slash_def is_digit_def
      digit_val_def)

text \<open>
  C6. When \<open>Bond.__init__\<close> succeeds on a yield-rate string, the stored yield rate is the
  number read from the string with its leading and trailing \<open>%\<close> removed, divided by 100.
  The division is unconditional: a string with no percent sign is read as it is and
  divided by 100 all the same. Conversely the constructor succeeds with that yield rate
  whenever the base constructor, the coupon and the stripped string convert.
\<close>

theorem bond_yield_rate_parse:
  "(Bond_init pid symb qty pp cp cpn (PStr s) d = Inr b \<longrightarrow>
      (\<exists>y. float_of_str (py_strip_chars ''%'' s) = Inr y \<and> yield_rate b = y / 100))
   \<and> (CHR ''%'' \<notin> set s \<and> Bond_init pid symb qty pp cp cpn (PStr s) d = Inr b \<longrightarrow>
      (\<exists>y. float_of_str s = Inr y \<and> yield_rate b = y / 100))
   \<and> (Investment_init pid symb qty pp cp d = Inr base \<and> py_float cpn = Inr c
        \<and> float_of_str (py_strip_chars ''%'' s) = Inr y \<longrightarrow>
      Bond_init pid symb qty pp cp cpn (PStr s) d
        = Inr (Investment.extend base \<lparr>coupon = c, yield_rate = y / 100\<rparr>))"
proof -
  have 1: "\<exists>y. float_of_str (py_strip_chars ''%'' s) = Inr y \<and> yield_rate b = y / 100"
    if "Bond_init pid symb qty pp cp cpn (PStr s) d = Inr b"
    using that
    by (auto simp: Bond_init_def Investment.extend_def split: sum.splits)
  have 2: "\<exists>y. float_of_str s = Inr y \<and> yield_rate b = y / 100"
    if "CHR ''%'' \<notin> set s \<and> Bond_init pid symb qty pp cp cpn (PStr s) d = Inr b"
    using 1 that strip_chars_absent [of "CHR ''%''" s] by simp
  have 3: "Bond_init pid symb qty pp cp cpn (PStr s) d
        = Inr (Investment.extend base \<lparr>coupon = c, yield_rate = y / 100\<rparr>)"
    if "Investment_init pid symb qty pp cp d = Inr base \<and> py_float cpn = Inr c
        \<and> float_of_str (py_strip_chars ''%'' s) = Inr y"
    using that by (simp add: Bond_init_def)
  from 1 2 3 show ?thesis by blast
qed


text \<open>\<open>"1.35%"\<close> is stored as 0.0135, and the bare \<open>"0.0135"\<close> as 0.000135.\<close>

theorem bond_yield_rate_parse_witness:
  "(\<exists>y. float_of_str (py_strip_chars ''%'' ''1.35%'') = Inr y
        \<and> yield_rate \<lparr>purchase_id = ''B1'', symbol = ''GT2:GOV'', quantity = 200,
             purchase_price = 100.02, current_price = 100.05, purchase_date = ''8/1/2017'',
             coupon = 1.38, yield_rate = 0.0135\<rparr> = y / 100)
   \<and> CHR ''%'' \<notin> set ''0.0135''
   \<and> (\<exists>y. float_of_str ''0.0135'' = Inr y
        \<and> yield_rate \<lparr>purchase_id = ''B1'', symbol = ''GT2:GOV'', quantity = 200,
             purchase_price = 100.02, current_price = 100.05, purchase_date = ''8/1/2017'',
             coupon = 1.38, yield_rate = 0.000135\<rparr> = y / 100)"
proof -
  have "CHR ''%'' \<notin> set ''0.0135''" by simp
  then show ?thesis
    using
      bond_yield_rate_parse [of "''B1''" "''GT2:GOV''" "PStr ''200''" "PStr ''100.02''"
        "PStr ''100.05''" "PStr ''1.38''" "''1.35%''" "''8/1/2017''"
        "\<lparr>purchase_id = ''B1'', symbol = ''GT2:GOV'', quantity = 200,
             purchase_price = 100.02, current_price = 100.05, purchase_date = ''8/1/2017'',
             coupon = 1.38, yield_rate = 0.0135\<rparr>"]
      bond_yield_rate_parse [of "''B1''" "''GT2:GOV''" "PStr ''200''" "PStr ''100.02''"
        "PStr ''100.05''" "PStr ''1.38''" "''0.0135''" "''8/1/2017''"
        "\<lparr>purchase_id = ''B1'', symbol = ''GT2:GOV'', quantity = 200,
             purchase_price = 100.02, current_price = 100.05, purchase_date = ''8/1/2017'',
             coupon = 1.38, yield_rate = 0.000135\<rparr>"]
      bond_percent_example bond_bare_example
    by blast
qed

text \<open>
  C10. The constructors never look at the purchase date: with another date string they
  give the same outcome, the date field apart, and \<open>Investment.__init__\<close> succeeds with
  any date as soon as the three numbers convert. A date that \<open>strptime\<close> rejects makes
  \<open>yearly_return()\<close> raise \<open>ValueError\<close>; \<open>earnings()\<close> and \<open>percent_yield()\<close> do not depend
  on the date, so they return what they return for a well-formed date: \<open>earnings()\<close>
  always a number, \<open>percent_yield()\<close> the yield whenever the purchase price is not 0, which
  the data model requires of every holding.
\<close>

theorem purchase_date_not_validated:
  "Investment_init pid symb qty pp cp d'
     = map_sum id (\<lambda>i. i\<lparr>purchase_date := d'\<rparr>) (Investment_init pid symb qty pp cp d)
   \<and> Bond_init pid symb qty pp cp cpn yld d'
     = map_sum id (\<lambda>i. i\<lparr>purchase_date := d'\<rparr>) (Bond_init pid symb qty pp cp cpn yld d)
   \<and> (py_int qty = Inr q \<and> py_float pp = Inr p \<and> py_float cp = Inr c \<longrightarrow>
        Investment_init pid symb qty pp cp d
          = Inr \<lparr>purchase_id = pid, symbol = symb, quantity = q, purchase_price = p,
                 current_price = c, purchase_date = d\<rparr>)
   \<and> (strptime (purchase_date self) = Inl e \<longrightarrow> yearly_return today self = Inl ValueError)
   \<and> earnings (self\<lparr>purchase_date := d\<rparr>) = earnings self
   \<and> percent_yield (self\<lparr>purchase_date := d\<rparr>) = percent_yield self
   \<and> (purchase_price self \<noteq> 0 \<longrightarrow>
        percent_yield (self\<lparr>purchase_date := d\<rparr>)
          = Inr ((current_price self - purchase_price self) / purchase_price self * 100))
   \<and> Bond_earnings (bond\<lparr>purchase_date := d\<rparr>) = Bond_earnings bond"
proof -
  have "yearly_return today self = Inl ValueError" if "strptime (purchase_date self) = Inl e"
    using that strptime_error [OF that]
    by (simp add: yearly_return_def calculate_yearly_return_def)
  moreover have "Investment_init pid symb qty pp cp d
          = Inr \<lparr>purchase_id = pid, symbol = symb, quantity = q, purchase_price = p,
                 current_price = c, purchase_date = d\<rparr>"
    if "py_int qty = Inr q \<and> py_float pp = Inr p \<and> py_float cp = Inr c"
    using that by (simp add: Investment_init_def)
  moreover have "earnings (self\<lparr>purchase_date := d\<rparr>) = earnings self"
    "percent_yield (self\<lparr>purchase_date := d\<rparr>) = percent_yield self"
    "Bond_earnings (bond\<lparr>purchase_date := d\<rparr>) = Bond_earnings bond"
    by (simp_all add: earnings_def percent_yield_def Bond_earnings_def)
  moreover have "percent_yield (self\<lparr>purchase_date := d\<rparr>)
          = Inr ((current_price self - purchase_price self) / purchase_price self * 100)"
    if "purchase_price self \<noteq> 0"
    using that by (simp add: percent_yield_def calculate_percentage_yield_def truediv_def)
  ultimately show ?thesis
    using Investment_init_date [of pid symb qty pp cp d' d]
      Bond_init_date [of pid symb qty pp cp cpn yld d' d]
    by blast
qed


text \<open>An ISO date: construction succeeds, only \<open>yearly_return()\<close> raises.\<close>

theorem purchase_date_not_validated_witness:
  "Investment_init ''S1'' ''AAPL'' (PStr ''10'') (PStr ''100'') (PStr ''150'') ''2017-08-01''
     = Inr \<lparr>purchase_id = ''S1'', symbol = ''AAPL'', quantity = 10, purchase_price = 100,
            current_price = 150, purchase_date = ''2017-08-01''\<rparr>
   \<and> strptime ''2017-08-01'' = Inl ValueError
   \<and> yearly_return \<lparr>year = 2025, month = 6, day = 9\<rparr>
        \<lparr>purchase_id = ''S1'', symbol = ''AAPL'', quantity = 10, purchase_price = 100,
         current_price = 150, purchase_date = ''2017-08-01''\<rparr> = Inl ValueError
   \<and> earnings \<lparr>purchase_id = ''S1'', symbol = ''AAPL'', quantity = 10, purchase_price = 100,
         current_price = 150, purchase_date = ''2017-08-01''\<rparr> = 500
   \<and> percent_yield \<lparr>purchase_id = ''S1'', symbol = ''AAPL'', quantity = 10,
         purchase_price = 100, current_price = 150, purchase_date = ''2017-08-01''\<rparr> = Inr 50"
proof -
  have conv: "py_int (PStr ''10'') = Inr 10 \<and> py_float (PStr ''100'') = Inr 100
      \<and> py_float (PStr ''150'') = Inr 150"
    by (simp add: conversion_defs)
  show ?thesis
    using conv strptime_iso_date
      purchase_date_not_validated [where pid = "''S1''" and symb = "''AAPL''"
        and qty = "PStr ''10''" and pp = "PStr ''100''" and cp = "PStr ''150''"
        and d = "''2017-08-01''" and d' = "''2017-08-01''" and q = 10 and p = 100 and c = 150
        and self = "\<lparr>purchase_id = ''S1'', symbol = ''AAPL'', quantity = 10,
          purchase_price = 100, current_price = 150, purchase_date = ''2017-08-01''\<rparr>"
        and e = ValueError and today = "\<lparr>year = 2025, month = 6, day = 9\<rparr>"]
    by (simp add: earnings_def calculate_earnings_def)
qed

section \<open>The file readers\<close>

lemma read_stocks_lines_outcomes:
  "read_stocks_lines idx lines acc =
     (let rs = map (\<lambda>(i, l). stock_of_line i l) (List.enumerate idx lines)
      in (acc @ map projr (takeWhile (Not \<circ> isl) rs),
          case dropWhile (Not \<circ> isl) rs of [] \<Rightarrow> None | r # _ \<Rightarrow> Some (projl r)))"
proof (induction lines arbitrary: idx acc)
  case Nil
  show ?case by simp
next
  case (Cons line rest)
  show ?case
  proof (cases "stock_of_line idx line")
    case (Inl e)
    then show ?thesis by simp
  next
    case (Inr i)
    then show ?thesis by (simp add: Cons.IH Let_def)
  qed
qed

lemma read_bonds_lines_outcomes:
  "read_bonds_lines idx lines acc =
     (let rs = List.map_filter (\<lambda>(i, l). bond_of_line i l) (List.enumerate idx lines)
      in (acc @ map projr (takeWhile (Not \<circ> isl) rs),
          case dropWhile (Not \<circ> isl) rs of [] \<Rightarrow> None | r # _ \<Rightarrow> Some (projl r)))"
proof (induction lines arbitrary: idx acc)
  case Nil
  show ?case by (simp add: map_filter_simps)
next
  case (Cons line rest)
  show ?case
  proof (cases "bond_of_line idx line")
    case None
    then show ?thesis by (simp add: Cons.IH Let_def map_filter_simps)
  next
    case (Some r)
    then show ?thesis
      by (cases r) (simp_all add: Cons.IH Let_def map_filter_simps)
  qed
qed

lemma stock_of_line_id: "stock_of_line idx line = Inr i \<Longrightarrow> purchase_id i = ''S'' @ py_str idx"
  by (auto simp: stock_of_line_def Investment_init_def split: list.splits sum.splits)

lemma bond_of_line_id:
  "bond_of_line idx line = Some (Inr b) \<Longrightarrow> purchase_id b = ''B'' @ py_str idx"
  by (auto simp: bond_of_line_def Bond_init_def Investment_init_def Investment.extend_def Let_def
      split: list.splits sum.splits if_splits)

lemma stock_of_line_field_count:
  "length (py_split CHR '','' (py_strip line)) \<noteq> 5 \<Longrightarrow> stock_of_line idx line = Inl ValueError"
  by (auto simp: stock_of_line_def split: list.splits)

lemma bond_of_line_field_count:
  "bond_of_line idx line = None \<longleftrightarrow> length (py_split CHR '','' (py_strip line)) \<noteq> 7"
  by (auto simp: bond_of_line_def Let_def split: list.splits)

lemma stock_of_line_bad_number:
  assumes "py_split CHR '','' (py_strip line) = [symb, qty, p_price, c_price, p_date]"
    and "isl (int_of_str qty) \<or> isl (float_of_str p_price) \<or> isl (float_of_str c_price)"
  shows "isl (stock_of_line idx line)"
  using assms
  by (auto simp: stock_of_line_def Investment_init_def py_int_def py_float_def split: sum.splits)

lemma bond_of_line_bad_number:
  assumes "py_split CHR '','' (py_strip line) = [symb, qty, p_price, c_price, cpn, yld, p_date]"
    and "isl (int_of_str qty) \<or> isl (float_of_str p_price) \<or> isl (float_of_str c_price)
         \<or> isl (float_of_str cpn) \<or> isl (float_of_str (py_strip_chars ''%'' yld))"
  shows "\<exists>e. bond_of_line idx line = Some (Inl e)"
  using assms
  by (auto simp: bond_of_line_def Bond_init_def Investment_init_def py_int_def py_float_def
      split: sum.splits)


lemmas line_defs =
  stock_of_line_def bond_of_line_def Investment_init_def Bond_init_def Investment.extend_def
  conversion_defs py_str.simps Let_def

lemma example_stock_line_1:
  "stock_of_line 1 (''AAPL,10,100.0,150.5,8/1/2017'' @ [CHR 0x0A]) = Inr example_stock"
  by (simp add: line_defs example_stock_def)

lemma example_stock_line_2: "stock_of_line 2 (''MSFT,5,10'' @ [CHR 0x0A]) = Inl ValueError"
  by (simp add: line_defs)

lemma example_stock_line_3: "\<not> isl (stock_of_line 3 ''IBM,1,1,1,1/1/2020'')"
  by (simp add: line_defs)

lemma example_bond_line_1:
  "bond_of_line 1 (''AAPL,10,100.0,150.5,8/1/2017'' @ [CHR 0x0A]) = None"
  by (simp add: line_defs)

lemma example_bond_line_2:
  "bond_of_line 2 (''GT2:GOV,200,100.02,100.05,1.38,1.35%,8/1/2017'' @ [CHR 0x0A])
     = Some (Inr example_bond)"
  by (simp add: line_defs example_bond_def)

lemma read_stocks_example:
  "read_stocks example_files ''Lesson6_Data_Stocks.txt''
     = ([example_stock], [StockFileError ''Lesson6_Data_Stocks.txt'' ValueError])"
  by (simp add: read_stocks_def example_files_def example_stock_lines_def line_defs
      example_stock_def)

lemma read_bonds_example:
  "read_bonds example_files ''Week6_Data_Bonds.txt'' = ([example_bond], [])"
  by (simp add: read_bonds_def example_files_def example_bond_lines_def line_defs
      example_bond_def)


text \<open>
  Lines on which the readers depend on what \<^verbatim>\<open>int\<close> and \<^verbatim>\<open>float\<close> accept: a quantity of 4301
  digits is refused, a price \<^verbatim>\<open>nan\<close> or \<^verbatim>\<open>-Infinity\<close> is read, and the separator character
  0x1C, which \<^verbatim>\<open>str.strip()\<close> would drop, makes a quantity unreadable.
\<close>

lemma digitpart_digits: "\<forall>c \<in> set s. is_digit c \<Longrightarrow> digitpart s = (s, [])"
  by (induction s rule: digitpart.induct) (auto simp: is_digit_def)

lemma int_of_str_digit_limit: "isl (int_of_str (replicate 4301 CHR ''7''))"
proof -
  have d: "digitpart (replicate 4301 CHR ''7'') = (replicate 4301 CHR ''7'', [])"
    by (rule digitpart_digits) (simp add: is_digit_def)
  have s: "strip_where c_isspace (replicate 4301 CHR ''7'') = replicate 4301 CHR ''7''"
    by (simp add: strip_where_def c_isspace_def dropWhile_eq_self_iff)
  have "(4301::nat) = Suc 4300"
    by simp
  then have r: "replicate 4301 CHR ''7'' = CHR ''7'' # replicate 4300 CHR ''7''"
    by (simp only: replicate_Suc)
  have g: "split_sign (replicate 4301 CHR ''7'') = (False, replicate 4301 CHR ''7'')"
    unfolding r by (simp add: split_sign_def)
  show ?thesis
    by (simp add: int_of_str_def s g d)
qed

lemma nonfinite_stock_line:
  "stock_of_line 1 (''MSFT,5,nan,-Infinity,1/1/2020'' @ [CHR 0x0A])
     = Inr \<lparr>purchase_id = ''S1'', symbol = ''MSFT'', quantity = 5, purchase_price = nonfinite,
            current_price = - nonfinite, purchase_date = ''1/1/2020''\<rparr>"
  by (simp add: line_defs)

lemma separator_stock_line:
  "py_split CHR '','' (py_strip (''IBM,'' @ [CHR 0x1C] @ ''5,1,2,1/1/2020'' @ [CHR 0x0A]))
      = [''IBM'', [CHR 0x1C, CHR ''5''], ''1'', ''2'', ''1/1/2020'']
   \<and> isl (int_of_str [CHR 0x1C, CHR ''5''])"
  by (simp add: conversion_defs)


text \<open>
  C3. \<open>read_stocks\<close> always returns a list. For a file that cannot be opened it is empty
  and the failure is reported. Otherwise, with the outcome of the loop body on every
  numbered line, it is the holdings of the lines before the first line whose outcome is an
  exception, one report is printed for that exception, and none when no line fails. A
  holding built from line \<open>idx\<close> has the identifier \<open>"S" + str(idx)\<close>; a line that has not
  five fields fails, and so does a line whose quantity or a price does not convert.
  \<open>read_bonds\<close> is the same on the lines that have seven fields, numbered by their
  place in the file: a line with another field count has no outcome, so it adds no bond,
  prints nothing and does not stop the loop, while a seven-field line with a number that
  does not convert stops it.
\<close>

theorem readers_partial_results:
  "(fs filename = None \<longrightarrow> read_stocks fs filename = ([], [StockFileError filename OSError]))
   \<and> (fs filename = Some lines \<longrightarrow>
        read_stocks fs filename =
          (let rs = map (\<lambda>(idx, line). stock_of_line idx line) (List.enumerate 1 lines)
           in (map projr (takeWhile (Not \<circ> isl) rs),
               case dropWhile (Not \<circ> isl) rs of
                 [] \<Rightarrow> []
               | r # _ \<Rightarrow> [StockFileError filename (projl r)])))
   \<and> (stock_of_line idx line = Inr i \<longrightarrow> purchase_id i = ''S'' @ py_str idx)
   \<and> (length (py_split CHR '','' (py_strip line)) \<noteq> 5 \<longrightarrow>
        stock_of_line idx line = Inl ValueError)
   \<and> (py_split CHR '','' (py_strip line) = [symb, qty, p_price, c_price, p_date]
        \<and> (isl (int_of_str qty) \<or> isl (float_of_str p_price) \<or> isl (float_of_str c_price)) \<longrightarrow>
        isl (stock_of_line idx line))
   \<and> (fs filename = None \<longrightarrow> read_bonds fs filename = ([], [BondFileError filename OSError]))
   \<and> (fs filename = Some lines \<longrightarrow>
        read_bonds fs filename =
          (let rs = List.map_filter (\<lambda>(idx, line). bond_of_line idx line) (List.enumerate 1 lines)
           in (map projr (takeWhile (Not \<circ> isl) rs),
               case dropWhile (Not \<circ> isl) rs of
                 [] \<Rightarrow> []
               | r # _ \<Rightarrow> [BondFileError filename (projl r)])))
   \<and> (bond_of_line idx line = None \<longleftrightarrow> length (py_split CHR '','' (py_strip line)) \<noteq> 7)
   \<and> (bond_of_line idx line = Some (Inr b) \<longrightarrow> purchase_id b = ''B'' @ py_str idx)
   \<and> (py_split CHR '','' (py_strip line) = [symb, qty, p_price, c_price, cpn, yld, p_date]
        \<and> (isl (int_of_str qty) \<or> isl (float_of_str p_price) \<or> isl (float_of_str c_price)
            \<or> isl (float_of_str cpn) \<or> isl (float_of_str (py_strip_chars ''%'' yld))) \<longrightarrow>
        (\<exists>e. bond_of_line idx line = Some (Inl e)))"
proof -
  have s_none: "read_stocks fs filename = ([], [StockFileError filename OSError])"
    if "fs filename = None"
    using that by (simp add: read_stocks_def)
  have b_none: "read_bonds fs filename = ([], [BondFileError filename OSError])"
    if "fs filename = None"
    using that by (simp add: read_bonds_def)
  have s_some: "read_stocks fs filename =
          (let rs = map (\<lambda>(idx, line). stock_of_line idx line) (List.enumerate 1 lines)
           in (map projr (takeWhile (Not \<circ> isl) rs),
               case dropWhile (Not \<circ> isl) rs of
                 [] \<Rightarrow> []
               | r # _ \<Rightarrow> [StockFileError filename (projl r)]))"
    if "fs filename = Some lines"
  proof -
    define rs where "rs = map (\<lambda>(idx, line). stock_of_line idx line) (List.enumerate 1 lines)"
    define tk dr where "tk = takeWhile (Not \<circ> isl) rs" and "dr = dropWhile (Not \<circ> isl) rs"
    have "read_stocks_lines 1 lines []
            = (map projr tk, case dr of [] \<Rightarrow> None | r # _ \<Rightarrow> Some (projl r))"
      unfolding tk_def dr_def rs_def by (simp add: read_stocks_lines_outcomes Let_def)
    then have "read_stocks fs filename
            = (map projr tk, case dr of [] \<Rightarrow> [] | r # _ \<Rightarrow> [StockFileError filename (projl r)])"
      using that by (cases dr) (simp_all add: read_stocks_def)
    then show ?thesis
      unfolding tk_def dr_def rs_def Let_def .
  qed
  have b_some: "read_bonds fs filename =
          (let rs = List.map_filter (\<lambda>(idx, line). bond_of_line idx line) (List.enumerate 1 lines)
           in (map projr (takeWhile (Not \<circ> isl) rs),
               case dropWhile (Not \<circ> isl) rs of
                 [] \<Rightarrow> []
               | r # _ \<Rightarrow> [BondFileError filename (projl r)]))"
    if "fs filename = Some lines"
  proof -
    define rs where
      "rs = List.map_filter (\<lambda>(idx, line). bond_of_line idx line) (List.enumerate 1 lines)"
    define tk dr where "tk = takeWhile (Not \<circ> isl) rs" and "dr = dropWhile (Not \<circ> isl) rs"
    have "read_bonds_lines 1 lines []
            = (map projr tk, case dr of [] \<Rightarrow> None | r # _ \<Rightarrow> Some (projl r))"
      unfolding tk_def dr_def rs_def by (simp add: read_bonds_lines_outcomes Let_def)
    then have "read_bonds fs filename
            = (map projr tk, case dr of [] \<Rightarrow> [] | r # _ \<Rightarrow> [BondFileError filename (projl r)])"
      using that by (cases dr) (simp_all add: read_bonds_def)
    then show ?thesis
      unfolding tk_def dr_def rs_def Let_def .
  qed
  show ?thesis
    using s_none b_none s_some b_some
      stock_of_line_id [of idx line i] stock_of_line_field_count [of line idx]
      stock_of_line_bad_number [of line symb qty p_price c_price p_date idx]
      bond_of_line_field_count [of idx line] bond_of_line_id [of idx line b]
      bond_of_line_bad_number [of line symb qty p_price c_price cpn yld p_date idx]
    by blast
qed


text \<open>
  The example files: the stock file yields its first holding and one report, the bond
  file skips its five-field line without a report and yields \<open>B2\<close>. A stock file whose
  first line has the prices \<^verbatim>\<open>nan\<close> and \<^verbatim>\<open>-Infinity\<close> and whose second line has the
  character 0x1C before the quantity yields the holding of the first line and the report
  of the second; its third line is not read.
\<close>

theorem readers_partial_results_witness:
  "example_files ''Lesson6_Data_Stocks.txt'' = Some example_stock_lines
   \<and> read_stocks example_files ''Lesson6_Data_Stocks.txt''
       = ([example_stock], [StockFileError ''Lesson6_Data_Stocks.txt'' ValueError])
   \<and> example_files ''missing.txt'' = None
   \<and> read_stocks example_files ''missing.txt'' = ([], [StockFileError ''missing.txt'' OSError])
   \<and> read_bonds example_files ''missing.txt'' = ([], [BondFileError ''missing.txt'' OSError])
   \<and> example_files ''Week6_Data_Bonds.txt'' = Some example_bond_lines
   \<and> read_bonds example_files ''Week6_Data_Bonds.txt'' = ([example_bond], [])
   \<and> purchase_id example_stock = ''S'' @ py_str 1
   \<and> purchase_id example_bond = ''B'' @ py_str 2
   \<and> stock_of_line 2 (''MSFT,5,10'' @ [CHR 0x0A]) = Inl ValueError
   \<and> bond_of_line 1 (''AAPL,10,100.0,150.5,8/1/2017'' @ [CHR 0x0A]) = None
   \<and> isl (stock_of_line 2 ''MSFT,5,x,2,1/1/2020'')
   \<and> (\<exists>e. bond_of_line 3 ''GT,1,1,1,1,abc%,1/1/2020'' = Some (Inl e))
   \<and> stock_of_line 1 (''MSFT,5,nan,-Infinity,1/1/2020'' @ [CHR 0x0A])
       = Inr \<lparr>purchase_id = ''S1'', symbol = ''MSFT'', quantity = 5, purchase_price = nonfinite,
              current_price = - nonfinite, purchase_date = ''1/1/2020''\<rparr>
   \<and> isl (stock_of_line 2 (''IBM,'' @ [CHR 0x1C] @ ''5,1,2,1/1/2020'' @ [CHR 0x0A]))
   \<and> read_stocks
         (\<lambda>_. Some [''MSFT,5,nan,-Infinity,1/1/2020'' @ [CHR 0x0A],
                    ''IBM,'' @ [CHR 0x1C] @ ''5,1,2,1/1/2020'' @ [CHR 0x0A],
                    ''AAPL,10,100.0,150.5,8/1/2017'' @ [CHR 0x0A]]) ''s.txt''
       = ([\<lparr>purchase_id = ''S1'', symbol = ''MSFT'', quantity = 5, purchase_price = nonfinite,
             current_price = - nonfinite, purchase_date = ''1/1/2020''\<rparr>],
          [StockFileError ''s.txt'' ValueError])"
proof -
  have files: "example_files ''Lesson6_Data_Stocks.txt'' = Some example_stock_lines"
    "example_files ''missing.txt'' = None"
    "example_files ''Week6_Data_Bonds.txt'' = Some example_bond_lines"
    by (simp_all add: example_files_def)
  have short: "length (py_split CHR '','' (py_strip (''MSFT,5,10'' @ [CHR 0x0A]))) \<noteq> 5"
    "length (py_split CHR '','' (py_strip (''AAPL,10,100.0,150.5,8/1/2017'' @ [CHR 0x0A]))) \<noteq> 7"
    by (simp_all add: conversion_defs)
  have bad_stock: "py_split CHR '','' (py_strip ''MSFT,5,x,2,1/1/2020'')
      = [''MSFT'', ''5'', ''x'', ''2'', ''1/1/2020''] \<and> isl (float_of_str ''x'')"
    by (simp add: conversion_defs)
  have bad_bond: "py_split CHR '','' (py_strip ''GT,1,1,1,1,abc%,1/1/2020'')
      = [''GT'', ''1'', ''1'', ''1'', ''1'', ''abc%'', ''1/1/2020'']
      \<and> isl (float_of_str (py_strip_chars ''%'' ''abc%''))"
    by (simp add: conversion_defs)
  note a = readers_partial_results [where fs = example_files
      and filename = "''Lesson6_Data_Stocks.txt''" and lines = example_stock_lines
      and idx = 1 and line = "''AAPL,10,100.0,150.5,8/1/2017'' @ [CHR 0x0A]"
      and i = example_stock]
  note b = readers_partial_results [where fs = example_files and filename = "''missing.txt''"]
  note c = readers_partial_results [where fs = example_files
      and filename = "''Week6_Data_Bonds.txt''" and lines = example_bond_lines
      and idx = 2 and line = "''GT2:GOV,200,100.02,100.05,1.38,1.35%,8/1/2017'' @ [CHR 0x0A]"
      and b = example_bond]
  note d = readers_partial_results [where idx = 2 and line = "''MSFT,5,10'' @ [CHR 0x0A]"]
  note e = readers_partial_results [where idx = 1
      and line = "''AAPL,10,100.0,150.5,8/1/2017'' @ [CHR 0x0A]"]
  note f = readers_partial_results [where idx = 2 and line = "''MSFT,5,x,2,1/1/2020''"
      and symb = "''MSFT''" and qty = "''5''" and p_price = "''x''" and c_price = "''2''"
      and p_date = "''1/1/2020''"]
  note g = readers_partial_results [where idx = 3 and line = "''GT,1,1,1,1,abc%,1/1/2020''"
      and symb = "''GT''" and qty = "''1''" and p_price = "''1''" and c_price = "''1''"
      and cpn = "''1''" and yld = "''abc%''" and p_date = "''1/1/2020''"]
  have 1: "purchase_id example_stock = ''S'' @ py_str 1"
    using a example_stock_line_1 by blast
  have 2: "purchase_id example_bond = ''B'' @ py_str 2"
    using c example_bond_line_2 by blast
  have 3: "stock_of_line 2 (''MSFT,5,10'' @ [CHR 0x0A]) = Inl ValueError"
    using d short(1) by blast
  have 4: "bond_of_line 1 (''AAPL,10,100.0,150.5,8/1/2017'' @ [CHR 0x0A]) = None"
    using e short(2) by blast
  have 5: "isl (stock_of_line 2 ''MSFT,5,x,2,1/1/2020'')"
    using f bad_stock by blast
  have 6: "\<exists>e. bond_of_line 3 ''GT,1,1,1,1,abc%,1/1/2020'' = Some (Inl e)"
    using g bad_bond by blast
  have 7: "read_stocks example_files ''missing.txt'' = ([], [StockFileError ''missing.txt'' OSError])"
    "read_bonds example_files ''missing.txt'' = ([], [BondFileError ''missing.txt'' OSError])"
    using b files(2) by blast+
  have 8: "read_stocks example_files ''Lesson6_Data_Stocks.txt''
       = ([example_stock], [StockFileError ''Lesson6_Data_Stocks.txt'' ValueError])"
  proof -
    have "read_stocks example_files ''Lesson6_Data_Stocks.txt'' =
          (let rs = map (\<lambda>(idx, line). stock_of_line idx line) (List.enumerate 1 example_stock_lines)
           in (map projr (takeWhile (Not \<circ> isl) rs),
               case dropWhile (Not \<circ> isl) rs of
                 [] \<Rightarrow> []
               | r # _ \<Rightarrow> [StockFileError ''Lesson6_Data_Stocks.txt'' (projl r)]))"
      using a files(1) by blast
    also have "\<dots> = ([example_stock], [StockFileError ''Lesson6_Data_Stocks.txt'' ValueError])"
      by (simp add: example_stock_lines_def line_defs example_stock_def)
    finally show ?thesis .
  qed
  have 9: "read_bonds example_files ''Week6_Data_Bonds.txt'' = ([example_bond], [])"
  proof -
    have "read_bonds example_files ''Week6_Data_Bonds.txt'' =
          (let rs = List.map_filter (\<lambda>(idx, line). bond_of_line idx line)
                      (List.enumerate 1 example_bond_lines)
           in (map projr (takeWhile (Not \<circ> isl) rs),
               case dropWhile (Not \<circ> isl) rs of
                 [] \<Rightarrow> []
               | r # _ \<Rightarrow> [BondFileError ''Week6_Data_Bonds.txt'' (projl r)]))"
      using c files(3) by blast
    also have "\<dots> = ([example_bond], [])"
      by (simp add: example_bond_lines_def line_defs example_bond_def map_filter_simps)
    finally show ?thesis .
  qed
  note h = readers_partial_results [where idx = 2
      and line = "''IBM,'' @ [CHR 0x1C] @ ''5,1,2,1/1/2020'' @ [CHR 0x0A]"
      and symb = "''IBM''" and qty = "[CHR 0x1C, CHR ''5'']" and p_price = "''1''"
      and c_price = "''2''" and p_date = "''1/1/2020''"]
  have 10: "isl (stock_of_line 2 (''IBM,'' @ [CHR 0x1C] @ ''5,1,2,1/1/2020'' @ [CHR 0x0A]))"
    using h separator_stock_line by blast
  let ?lines = "[''MSFT,5,nan,-Infinity,1/1/2020'' @ [CHR 0x0A],
                 ''IBM,'' @ [CHR 0x1C] @ ''5,1,2,1/1/2020'' @ [CHR 0x0A],
                 ''AAPL,10,100.0,150.5,8/1/2017'' @ [CHR 0x0A]]"
  have 11: "read_stocks (\<lambda>_. Some ?lines) ''s.txt''
       = ([\<lparr>purchase_id = ''S1'', symbol = ''MSFT'', quantity = 5, purchase_price = nonfinite,
             current_price = - nonfinite, purchase_date = ''1/1/2020''\<rparr>],
          [StockFileError ''s.txt'' ValueError])"
  proof -
    have "read_stocks (\<lambda>_. Some ?lines) ''s.txt'' =
          (let rs = map (\<lambda>(idx, line). stock_of_line idx line) (List.enumerate 1 ?lines)
           in (map projr (takeWhile (Not \<circ> isl) rs),
               case dropWhile (Not \<circ> isl) rs of
                 [] \<Rightarrow> []
               | r # _ \<Rightarrow> [StockFileError ''s.txt'' (projl r)]))"
      using readers_partial_results [where fs = "\<lambda>_. Some ?lines" and filename = "''s.txt''"
          and lines = ?lines]
      by blast
    also have "\<dots> = ([\<lparr>purchase_id = ''S1'', symbol = ''MSFT'', quantity = 5,
             purchase_price = nonfinite, current_price = - nonfinite,
             purchase_date = ''1/1/2020''\<rparr>],
          [StockFileError ''s.txt'' ValueError])"
      by (simp add: line_defs)
    finally show ?thesis .
  qed
  show ?thesis
    using files 1 2 3 4 5 6 7 8 9 10 11 nonfinite_stock_line by simp
qed

section \<open>The persistence step\<close>

lemma insert_stocks_result:
  "insert_stocks stocks t =
     (if \<forall>s \<in> set stocks. sqlite_integer (quantity s)
      then Inr (t ++ map_of (rev (map (\<lambda>s. (purchase_id s, stock_values s)) stocks)))
      else Inl OverflowError)"
proof (induction stocks arbitrary: t)
  case Nil
  show ?case by simp
next
  case (Cons s rest)
  have "t(purchase_id s \<mapsto> stock_values s) ++ m = t ++ ([purchase_id s \<mapsto> stock_values s] ++ m)"
    for m :: "string \<rightharpoonup> stock_row"
    by (rule ext) (simp add: map_add_def split: option.splits)
  then show ?case
    by (simp add: Cons.IH)
qed

lemma insert_bonds_result:
  "insert_bonds bonds t =
     (if \<forall>b \<in> set bonds. sqlite_integer (quantity b)
      then Inr (t ++ map_of (rev (map (\<lambda>b. (purchase_id b, bond_values b)) bonds)))
      else Inl OverflowError)"
proof (induction bonds arbitrary: t)
  case Nil
  show ?case by simp
next
  case (Cons b rest)
  have "t(purchase_id b \<mapsto> bond_values b) ++ m = t ++ ([purchase_id b \<mapsto> bond_values b] ++ m)"
    for m :: "string \<rightharpoonup> bond_row"
    by (rule ext) (simp add: map_add_def split: option.splits)
  then show ?case
    by (simp add: Cons.IH)
qed


lemma setup_database_result:
  "setup_database db stocks bonds =
     (if \<not> openable db then (Inl OperationalError, db)
      else if \<not> ((\<forall>s \<in> set stocks. sqlite_integer (quantity s))
                  \<and> (\<forall>b \<in> set bonds. sqlite_integer (quantity b)))
      then (Inl OverflowError,
            db\<lparr>tables := \<lparr>stocks_table = Some (create_table_if_not_exists (stocks_table (tables db))),
                           bonds_table = Some (create_table_if_not_exists (bonds_table (tables db)))\<rparr>,
               conn_log := conn_log db @ [Connect]\<rparr>)
      else (Inr (),
            db\<lparr>tables :=
                 \<lparr>stocks_table = Some (create_table_if_not_exists (stocks_table (tables db))
                     ++ map_of (rev (map (\<lambda>s. (purchase_id s, stock_values s)) stocks))),
                  bonds_table = Some (create_table_if_not_exists (bonds_table (tables db))
                     ++ map_of (rev (map (\<lambda>b. (purchase_id b, bond_values b)) bonds)))\<rparr>,
               conn_log := conn_log db @ [Connect, Commit]\<rparr>))"
  by (simp add: setup_database_def Let_def insert_stocks_result insert_bonds_result)

lemma setup_database_succeeds:
  "fst (setup_database db stocks bonds) = Inr () \<longleftrightarrow>
     openable db \<and> (\<forall>s \<in> set stocks. sqlite_integer (quantity s))
       \<and> (\<forall>b \<in> set bonds. sqlite_integer (quantity b))"
  by (simp add: setup_database_result)

lemma setup_database_again:
  assumes "setup_database db stocks bonds = (Inr (), db1)"
  shows "\<exists>db2. setup_database db1 stocks bonds = (Inr (), db2) \<and> tables db2 = tables db1"
proof -
  have ok: "openable db" "\<forall>s \<in> set stocks. sqlite_integer (quantity s)"
    "\<forall>b \<in> set bonds. sqlite_integer (quantity b)"
    using assms setup_database_succeeds [of db stocks bonds] by simp_all
  then have db1: "db1 = db\<lparr>tables :=
                 \<lparr>stocks_table = Some (create_table_if_not_exists (stocks_table (tables db))
                     ++ map_of (rev (map (\<lambda>s. (purchase_id s, stock_values s)) stocks))),
                  bonds_table = Some (create_table_if_not_exists (bonds_table (tables db))
                     ++ map_of (rev (map (\<lambda>b. (purchase_id b, bond_values b)) bonds)))\<rparr>,
               conn_log := conn_log db @ [Connect, Commit]\<rparr>"
    using assms by (simp add: setup_database_result)
  have idem: "(m ++ n) ++ n = m ++ n" for m n :: "'k \<rightharpoonup> 'r"
    by (rule ext) (simp add: map_add_def split: option.splits)
  have open1: "openable db1" and st1: "stocks_table (tables db1)
        = Some (create_table_if_not_exists (stocks_table (tables db))
                  ++ map_of (rev (map (\<lambda>s. (purchase_id s, stock_values s)) stocks)))"
    and bt1: "bonds_table (tables db1)
        = Some (create_table_if_not_exists (bonds_table (tables db))
                  ++ map_of (rev (map (\<lambda>b. (purchase_id b, bond_values b)) bonds)))"
    using ok(1) by (simp_all add: db1)
  have "setup_database db1 stocks bonds
      = (Inr (), db1\<lparr>tables := tables db1, conn_log := conn_log db1 @ [Connect, Commit]\<rparr>)"
    unfolding setup_database_result [of db1 stocks bonds]
    using ok(2,3) open1
    by (simp add: st1 bt1 create_table_if_not_exists_def idem)
  then show ?thesis by simp
qed


lemma setup_database_price_update:
  assumes "setup_database db [s] bonds = (Inr (), db1)"
    and "setup_database db1 [s\<lparr>current_price := p\<rparr>] bonds = (Inr (), db2)"
  shows "\<exists>t1 t2. stocks_table (tables db1) = Some t1 \<and> stocks_table (tables db2) = Some t2
           \<and> t2 (purchase_id s) = Some (stock_values (s\<lparr>current_price := p\<rparr>))
           \<and> dom t2 = dom t1 \<and> (\<forall>k. k \<noteq> purchase_id s \<longrightarrow> t2 k = t1 k)"
proof -
  have ok: "openable db" "sqlite_integer (quantity s)" "\<forall>b \<in> set bonds. sqlite_integer (quantity b)"
    using assms(1) setup_database_succeeds [of db "[s]" bonds] by simp_all
  have ok1: "openable db1"
    using assms(2) setup_database_succeeds [of db1 "[s\<lparr>current_price := p\<rparr>]" bonds] by simp
  have t1: "stocks_table (tables db1)
      = Some ((create_table_if_not_exists (stocks_table (tables db)))(purchase_id s \<mapsto> stock_values s))"
    using assms(1) ok by (auto simp: setup_database_result)
  have t2: "stocks_table (tables db2)
      = Some ((create_table_if_not_exists (stocks_table (tables db1)))
                (purchase_id s \<mapsto> stock_values (s\<lparr>current_price := p\<rparr>)))"
    using assms(2) ok ok1 by (auto simp: setup_database_result)
  show ?thesis
    unfolding t2 t1 by (auto simp: create_table_if_not_exists_def)
qed

lemma setup_database_openable:
  "openable (snd (setup_database db stocks bonds)) = openable db"
  by (simp add: setup_database_result)

lemma setup_database_tables:
  assumes "fst (setup_database db stocks bonds) = Inr ()"
  shows "tables (snd (setup_database db stocks bonds)) =
     \<lparr>stocks_table = Some (create_table_if_not_exists (stocks_table (tables db))
          ++ map_of (rev (map (\<lambda>s. (purchase_id s, stock_values s)) stocks))),
      bonds_table = Some (create_table_if_not_exists (bonds_table (tables db))
          ++ map_of (rev (map (\<lambda>b. (purchase_id b, bond_values b)) bonds)))\<rparr>"
  using assms by (simp add: setup_database_result split: if_splits)

lemma example_stock_fits: "sqlite_integer (quantity example_stock)"
  by (simp add: example_stock_def sqlite_integer_def)

lemma map_of_rev_last:
  assumes "k \<notin> fst ` set post"
  shows "map_of (rev (pre @ [(k, v)] @ post)) k = Some v"
proof -
  have "map_of (rev post) k = None"
    using assms by (simp add: map_of_eq_None_iff)
  then show ?thesis
    by (simp add: map_add_def)
qed

lemma map_of_rev_other:
  assumes "k' \<noteq> k"
  shows "map_of (rev (pre @ [(k, v)] @ post)) k' = map_of (rev (pre @ [(k, v')] @ post)) k'"
  using assms by (simp add: map_add_def split: option.splits)

lemma dom_map_of_rev_replace:
  "dom (map_of (rev (pre @ [(k, v)] @ post))) = dom (map_of (rev (pre @ [(k, v')] @ post)))"
  by (simp add: dom_map_of_conv_image_fst)

lemma setup_database_stored:
  assumes "setup_database db stocks bonds = (Inr (), db')"
  shows "tables db' =
     \<lparr>stocks_table = Some (create_table_if_not_exists (stocks_table (tables db))
          ++ map_of (rev (map (\<lambda>s. (purchase_id s, stock_values s)) stocks))),
      bonds_table = Some (create_table_if_not_exists (bonds_table (tables db))
          ++ map_of (rev (map (\<lambda>b. (purchase_id b, bond_values b)) bonds)))\<rparr>"
  using assms setup_database_tables [of db stocks bonds] by simp

lemma map_of_rev_distinct:
  assumes "distinct (map f xs)" "x \<in> set xs"
  shows "map_of (rev (map (\<lambda>x. (f x, g x)) xs)) (f x) = Some (g x)"
proof -
  have "distinct (map fst (rev (map (\<lambda>x. (f x, g x)) xs)))"
    using assms(1) by (simp add: rev_map [symmetric] comp_def)
  moreover have "(f x, g x) \<in> set (rev (map (\<lambda>x. (f x, g x)) xs))"
    using assms(2) by auto
  ultimately show ?thesis by (rule map_of_is_SomeI)
qed

lemma stock_price_update:
  assumes run1: "setup_database db (pre @ [s] @ post) bonds = (Inr (), db')"
    and run2: "setup_database db' (pre @ [s\<lparr>current_price := p\<rparr>] @ post) bonds = (Inr (), db'')"
    and last: "purchase_id s \<notin> purchase_id ` set post"
  shows "\<exists>t1 t2. stocks_table (tables db') = Some t1 \<and> stocks_table (tables db'') = Some t2
           \<and> t2 (purchase_id s) = Some (stock_values (s\<lparr>current_price := p\<rparr>))
           \<and> dom t2 = dom t1 \<and> (\<forall>k. k \<noteq> purchase_id s \<longrightarrow> t2 k = t1 k)
           \<and> bonds_table (tables db'') = bonds_table (tables db')"
proof -
  let ?kv = "\<lambda>s. (purchase_id s, stock_values s)"
  let ?s' = "s\<lparr>current_price := p\<rparr>"
  let ?bm = "map_of (rev (map (\<lambda>b. (purchase_id b, bond_values b)) bonds))"
  define t0 where "t0 = create_table_if_not_exists (stocks_table (tables db))"
  define u0 where "u0 = create_table_if_not_exists (bonds_table (tables db))"
  define m1 where "m1 = map_of (rev (map ?kv pre @ [(purchase_id s, stock_values s)] @ map ?kv post))"
  define m2 where "m2 = map_of (rev (map ?kv pre @ [(purchase_id s, stock_values ?s')] @ map ?kv post))"
  have post: "purchase_id s \<notin> fst ` set (map ?kv post)"
    using last by (simp add: image_image)
  have T1: "tables db' = \<lparr>stocks_table = Some (t0 ++ m1), bonds_table = Some (u0 ++ ?bm)\<rparr>"
    using setup_database_stored [OF run1] by (simp add: t0_def u0_def m1_def)
  have T2: "tables db'' = \<lparr>stocks_table = Some ((t0 ++ m1) ++ m2),
                           bonds_table = Some ((u0 ++ ?bm) ++ ?bm)\<rparr>"
    using setup_database_stored [OF run2]
    by (simp add: T1 create_table_if_not_exists_def m2_def)
  have a: "m2 (purchase_id s) = Some (stock_values ?s')"
    unfolding m2_def using post by (rule map_of_rev_last)
  have b: "m2 k = m1 k" if "k \<noteq> purchase_id s" for k
    unfolding m1_def m2_def using that by (rule map_of_rev_other)
  have c: "dom m2 = dom m1"
    unfolding m1_def m2_def by (rule dom_map_of_rev_replace)
  have "((t0 ++ m1) ++ m2) k = (t0 ++ m1) k" if "k \<noteq> purchase_id s" for k
    using b [OF that] by (simp add: map_add_def split: option.splits)
  moreover have "((t0 ++ m1) ++ m2) (purchase_id s) = Some (stock_values ?s')"
    using a by (simp add: map_add_def)
  moreover have "dom ((t0 ++ m1) ++ m2) = dom (t0 ++ m1)"
    using c by auto
  moreover have "(u0 ++ ?bm) ++ ?bm = u0 ++ ?bm"
    by (rule ext) (simp add: map_add_def split: option.splits)
  ultimately show ?thesis
    unfolding T1 T2 by simp
qed

lemma bond_price_update:
  assumes run1: "setup_database db stocks (pre @ [b] @ post) = (Inr (), db')"
    and run2: "setup_database db' stocks (pre @ [b\<lparr>current_price := p\<rparr>] @ post) = (Inr (), db'')"
    and last: "purchase_id b \<notin> purchase_id ` set post"
  shows "\<exists>u1 u2. bonds_table (tables db') = Some u1 \<and> bonds_table (tables db'') = Some u2
           \<and> u2 (purchase_id b) = Some (bond_values (b\<lparr>current_price := p\<rparr>))
           \<and> dom u2 = dom u1 \<and> (\<forall>k. k \<noteq> purchase_id b \<longrightarrow> u2 k = u1 k)
           \<and> stocks_table (tables db'') = stocks_table (tables db')"
proof -
  let ?kv = "\<lambda>b. (purchase_id b, bond_values b)"
  let ?b' = "b\<lparr>current_price := p\<rparr>"
  let ?sm = "map_of (rev (map (\<lambda>s. (purchase_id s, stock_values s)) stocks))"
  define t0 where "t0 = create_table_if_not_exists (stocks_table (tables db))"
  define u0 where "u0 = create_table_if_not_exists (bonds_table (tables db))"
  define m1 where "m1 = map_of (rev (map ?kv pre @ [(purchase_id b, bond_values b)] @ map ?kv post))"
  define m2 where "m2 = map_of (rev (map ?kv pre @ [(purchase_id b, bond_values ?b')] @ map ?kv post))"
  have post: "purchase_id b \<notin> fst ` set (map ?kv post)"
    using last by (simp add: image_image)
  have T1: "tables db' = \<lparr>stocks_table = Some (t0 ++ ?sm), bonds_table = Some (u0 ++ m1)\<rparr>"
    using setup_database_stored [OF run1] by (simp add: t0_def u0_def m1_def)
  have T2: "tables db'' = \<lparr>stocks_table = Some ((t0 ++ ?sm) ++ ?sm),
                           bonds_table = Some ((u0 ++ m1) ++ m2)\<rparr>"
    using setup_database_stored [OF run2]
    by (simp add: T1 create_table_if_not_exists_def m2_def)
  have a: "m2 (purchase_id b) = Some (bond_values ?b')"
    unfolding m2_def using post by (rule map_of_rev_last)
  have b: "m2 k = m1 k" if "k \<noteq> purchase_id b" for k
    unfolding m1_def m2_def using that by (rule map_of_rev_other)
  have c: "dom m2 = dom m1"
    unfolding m1_def m2_def by (rule dom_map_of_rev_replace)
  have "((u0 ++ m1) ++ m2) k = (u0 ++ m1) k" if "k \<noteq> purchase_id b" for k
    using b [OF that] by (simp add: map_add_def split: option.splits)
  moreover have "((u0 ++ m1) ++ m2) (purchase_id b) = Some (bond_values ?b')"
    using a by (simp add: map_add_def)
  moreover have "dom ((u0 ++ m1) ++ m2) = dom (u0 ++ m1)"
    using c by auto
  moreover have "(t0 ++ ?sm) ++ ?sm = t0 ++ ?sm"
    by (rule ext) (simp add: map_add_def split: option.splits)
  ultimately show ?thesis
    unfolding T1 T2 by simp
qed


lemma setup_database_rows:
  assumes "setup_database db stocks bonds = (Inr (), db')"
  shows "x \<in> set stocks \<Longrightarrow> the (stocks_table (tables db')) (purchase_id x) \<noteq> None"
    and "y \<in> set bonds \<Longrightarrow> the (bonds_table (tables db')) (purchase_id y) \<noteq> None"
    and "distinct (map purchase_id stocks) \<Longrightarrow> x \<in> set stocks \<Longrightarrow>
           the (stocks_table (tables db')) (purchase_id x) = Some (stock_values x)"
    and "distinct (map purchase_id bonds) \<Longrightarrow> y \<in> set bonds \<Longrightarrow>
           the (bonds_table (tables db')) (purchase_id y) = Some (bond_values y)"
proof -
  note T = setup_database_stored [OF assms]
  show "the (stocks_table (tables db')) (purchase_id x) \<noteq> None" if "x \<in> set stocks"
  proof -
    have "map_of (rev (map (\<lambda>s. (purchase_id s, stock_values s)) stocks)) (purchase_id x) \<noteq> None"
      using that by (simp add: map_of_eq_None_iff image_image)
    then show ?thesis by (auto simp: T map_add_def)
  qed
  show "the (bonds_table (tables db')) (purchase_id y) \<noteq> None" if "y \<in> set bonds"
  proof -
    have "map_of (rev (map (\<lambda>b. (purchase_id b, bond_values b)) bonds)) (purchase_id y) \<noteq> None"
      using that by (simp add: map_of_eq_None_iff image_image)
    then show ?thesis by (auto simp: T map_add_def)
  qed
  show "the (stocks_table (tables db')) (purchase_id x) = Some (stock_values x)"
    if "distinct (map purchase_id stocks)" "x \<in> set stocks"
    using map_of_rev_distinct [OF that, of stock_values] by (simp add: T map_add_def)
  show "the (bonds_table (tables db')) (purchase_id y) = Some (bond_values y)"
    if "distinct (map purchase_id bonds)" "y \<in> set bonds"
    using map_of_rev_distinct [OF that, of bond_values] by (simp add: T map_add_def)
qed

lemma example_run_succeeds:
  "fst (setup_database example_db [example_stock] [example_bond, b999]) = Inr ()"
  by (simp add: setup_database_succeeds example_db_def example_stock_def example_bond_def
      b999_def sqlite_integer_def)

text \<open>
  C4. When the persistence step succeeds, each of the two tables is the prior table
  (empty if it did not exist) with the row of every holding of its sequence stored under
  the holding's purchase identifier, a later holding replacing an earlier one with the
  same identifier: every stock and every bond of the run has a row, and with distinct
  identifiers it is the holding's own row. \<open>INSERT OR REPLACE\<close> of one holding puts its
  row in place of whatever row had that key. Running the step again on its own result
  with the same holdings succeeds and leaves both tables as they are, so neither the rows
  nor their number change. Persisting the holdings and then the same holdings with
  another current price for one stock, or for one bond, leaves under its identifier the
  row with the second price, with the same set of keys, every other row and the other
  table unchanged. The step succeeds exactly when the file opens and every quantity fits
  a 64-bit integer, whatever the identifiers are: two holdings with one identifier in a
  run are not an error, the later row replaces the earlier.
\<close>

theorem upsert_by_primary_key:
  "(sqlite_integer (quantity s) \<longrightarrow>
      insert_stocks [s] t = Inr (t(purchase_id s \<mapsto> stock_values s)))
   \<and> (sqlite_integer (quantity b) \<longrightarrow>
      insert_bonds [b] u = Inr (u(purchase_id b \<mapsto> bond_values b)))
   \<and> (setup_database db stocks bonds = (Inr (), db') \<longrightarrow>
      tables db' =
        \<lparr>stocks_table = Some (create_table_if_not_exists (stocks_table (tables db))
             ++ map_of (rev (map (\<lambda>x. (purchase_id x, stock_values x)) stocks))),
         bonds_table = Some (create_table_if_not_exists (bonds_table (tables db))
             ++ map_of (rev (map (\<lambda>y. (purchase_id y, bond_values y)) bonds)))\<rparr>
      \<and> (x \<in> set stocks \<longrightarrow> the (stocks_table (tables db')) (purchase_id x) \<noteq> None)
      \<and> (y \<in> set bonds \<longrightarrow> the (bonds_table (tables db')) (purchase_id y) \<noteq> None)
      \<and> (distinct (map purchase_id stocks) \<and> x \<in> set stocks \<longrightarrow>
           the (stocks_table (tables db')) (purchase_id x) = Some (stock_values x))
      \<and> (distinct (map purchase_id bonds) \<and> y \<in> set bonds \<longrightarrow>
           the (bonds_table (tables db')) (purchase_id y) = Some (bond_values y)))
   \<and> (setup_database db stocks bonds = (Inr (), db') \<longrightarrow>
      (\<exists>db''. setup_database db' stocks bonds = (Inr (), db'') \<and> tables db'' = tables db'))
   \<and> (setup_database db [s] bonds = (Inr (), db')
        \<and> setup_database db' [s\<lparr>current_price := p\<rparr>] bonds = (Inr (), db'') \<longrightarrow>
      (\<exists>t1 t2. stocks_table (tables db') = Some t1 \<and> stocks_table (tables db'') = Some t2
          \<and> t2 (purchase_id s) = Some (stock_values (s\<lparr>current_price := p\<rparr>))
          \<and> dom t2 = dom t1 \<and> (\<forall>k. k \<noteq> purchase_id s \<longrightarrow> t2 k = t1 k)))
   \<and> (setup_database db (pre @ [s] @ post) bonds = (Inr (), db')
        \<and> setup_database db' (pre @ [s\<lparr>current_price := p\<rparr>] @ post) bonds = (Inr (), db'')
        \<and> purchase_id s \<notin> purchase_id ` set post \<longrightarrow>
      (\<exists>t1 t2. stocks_table (tables db') = Some t1 \<and> stocks_table (tables db'') = Some t2
          \<and> t2 (purchase_id s) = Some (stock_values (s\<lparr>current_price := p\<rparr>))
          \<and> dom t2 = dom t1 \<and> (\<forall>k. k \<noteq> purchase_id s \<longrightarrow> t2 k = t1 k)
          \<and> bonds_table (tables db'') = bonds_table (tables db')))
   \<and> (setup_database db stocks (bpre @ [b] @ bpost) = (Inr (), db')
        \<and> setup_database db' stocks (bpre @ [b\<lparr>current_price := p\<rparr>] @ bpost) = (Inr (), db'')
        \<and> purchase_id b \<notin> purchase_id ` set bpost \<longrightarrow>
      (\<exists>u1 u2. bonds_table (tables db') = Some u1 \<and> bonds_table (tables db'') = Some u2
          \<and> u2 (purchase_id b) = Some (bond_values (b\<lparr>current_price := p\<rparr>))
          \<and> dom u2 = dom u1 \<and> (\<forall>k. k \<noteq> purchase_id b \<longrightarrow> u2 k = u1 k)
          \<and> stocks_table (tables db'') = stocks_table (tables db')))
   \<and> (fst (setup_database db stocks bonds) = Inr () \<longleftrightarrow>
        openable db \<and> (\<forall>x \<in> set stocks. sqlite_integer (quantity x))
          \<and> (\<forall>x \<in> set bonds. sqlite_integer (quantity x)))
   \<and> (purchase_id s' = purchase_id s \<and> sqlite_integer (quantity s)
        \<and> sqlite_integer (quantity s') \<longrightarrow>
      insert_stocks [s, s'] t = Inr (t(purchase_id s \<mapsto> stock_values s')))
   \<and> (purchase_id b' = purchase_id b \<and> sqlite_integer (quantity b)
        \<and> sqlite_integer (quantity b') \<longrightarrow>
      insert_bonds [b, b'] u = Inr (u(purchase_id b \<mapsto> bond_values b')))"
proof -
  have dup_s: "insert_stocks [s, s'] t = Inr (t(purchase_id s \<mapsto> stock_values s'))"
    if "purchase_id s' = purchase_id s \<and> sqlite_integer (quantity s) \<and> sqlite_integer (quantity s')"
    using that by simp
  have dup_b: "insert_bonds [b, b'] u = Inr (u(purchase_id b \<mapsto> bond_values b'))"
    if "purchase_id b' = purchase_id b \<and> sqlite_integer (quantity b) \<and> sqlite_integer (quantity b')"
    using that by simp
  have one_s: "sqlite_integer (quantity s) \<longrightarrow>
      insert_stocks [s] t = Inr (t(purchase_id s \<mapsto> stock_values s))"
    and one_b: "sqlite_integer (quantity b) \<longrightarrow>
      insert_bonds [b] u = Inr (u(purchase_id b \<mapsto> bond_values b))"
    by simp_all
  have stored: "tables db' =
        \<lparr>stocks_table = Some (create_table_if_not_exists (stocks_table (tables db))
             ++ map_of (rev (map (\<lambda>x. (purchase_id x, stock_values x)) stocks))),
         bonds_table = Some (create_table_if_not_exists (bonds_table (tables db))
             ++ map_of (rev (map (\<lambda>y. (purchase_id y, bond_values y)) bonds)))\<rparr>
      \<and> (x \<in> set stocks \<longrightarrow> the (stocks_table (tables db')) (purchase_id x) \<noteq> None)
      \<and> (y \<in> set bonds \<longrightarrow> the (bonds_table (tables db')) (purchase_id y) \<noteq> None)
      \<and> (distinct (map purchase_id stocks) \<and> x \<in> set stocks \<longrightarrow>
           the (stocks_table (tables db')) (purchase_id x) = Some (stock_values x))
      \<and> (distinct (map purchase_id bonds) \<and> y \<in> set bonds \<longrightarrow>
           the (bonds_table (tables db')) (purchase_id y) = Some (bond_values y))"
    if "setup_database db stocks bonds = (Inr (), db')"
    using setup_database_stored [OF that] setup_database_rows [OF that] by blast
  have again: "setup_database db stocks bonds = (Inr (), db') \<longrightarrow>
      (\<exists>db''. setup_database db' stocks bonds = (Inr (), db'') \<and> tables db'' = tables db')"
    using setup_database_again [of db stocks bonds db'] by blast
  have upd1: "setup_database db [s] bonds = (Inr (), db')
        \<and> setup_database db' [s\<lparr>current_price := p\<rparr>] bonds = (Inr (), db'') \<longrightarrow>
      (\<exists>t1 t2. stocks_table (tables db') = Some t1 \<and> stocks_table (tables db'') = Some t2
          \<and> t2 (purchase_id s) = Some (stock_values (s\<lparr>current_price := p\<rparr>))
          \<and> dom t2 = dom t1 \<and> (\<forall>k. k \<noteq> purchase_id s \<longrightarrow> t2 k = t1 k))"
    using setup_database_price_update [of db s bonds db' p db''] by blast
  have upd_s: "setup_database db (pre @ [s] @ post) bonds = (Inr (), db')
        \<and> setup_database db' (pre @ [s\<lparr>current_price := p\<rparr>] @ post) bonds = (Inr (), db'')
        \<and> purchase_id s \<notin> purchase_id ` set post \<longrightarrow>
      (\<exists>t1 t2. stocks_table (tables db') = Some t1 \<and> stocks_table (tables db'') = Some t2
          \<and> t2 (purchase_id s) = Some (stock_values (s\<lparr>current_price := p\<rparr>))
          \<and> dom t2 = dom t1 \<and> (\<forall>k. k \<noteq> purchase_id s \<longrightarrow> t2 k = t1 k)
          \<and> bonds_table (tables db'') = bonds_table (tables db'))"
    using stock_price_update [of db pre s post bonds db' p db''] by blast
  have upd_b: "setup_database db stocks (bpre @ [b] @ bpost) = (Inr (), db')
        \<and> setup_database db' stocks (bpre @ [b\<lparr>current_price := p\<rparr>] @ bpost) = (Inr (), db'')
        \<and> purchase_id b \<notin> purchase_id ` set bpost \<longrightarrow>
      (\<exists>u1 u2. bonds_table (tables db') = Some u1 \<and> bonds_table (tables db'') = Some u2
          \<and> u2 (purchase_id b) = Some (bond_values (b\<lparr>current_price := p\<rparr>))
          \<and> dom u2 = dom u1 \<and> (\<forall>k. k \<noteq> purchase_id b \<longrightarrow> u2 k = u1 k)
          \<and> stocks_table (tables db'') = stocks_table (tables db'))"
    using bond_price_update [of db stocks bpre b bpost db' p db''] by blast
  note ok = setup_database_succeeds [of db stocks bonds]
  show ?thesis
    apply (intro conjI)
    subgoal by (rule one_s)
    subgoal by (rule one_b)
    subgoal using stored by blast
    subgoal by (rule again)
    subgoal by (rule upd1)
    subgoal by (rule upd_s)
    subgoal by (rule upd_b)
    subgoal by (rule ok)
    subgoal using dup_s by blast
    subgoal using dup_b by blast
    done
qed


text \<open>
  On a fresh database, with the stock \<open>S1\<close> and the bonds \<open>B2\<close> and \<open>B999\<close>: the three rows
  are stored; a second identical run changes nothing; \<open>S1\<close> persisted again at 175 leaves
  the one row of \<open>S1\<close> with 175, and \<open>B999\<close> persisted again at 101 leaves the two bond rows
  with 101 under \<open>B999\<close>.
\<close>

theorem upsert_by_primary_key_witness:
  "fst (setup_database example_db [example_stock] [example_bond, b999]) = Inr ()
   \<and> the (stocks_table (tables (snd (setup_database example_db [example_stock]
        [example_bond, b999])))) ''S1'' = Some (stock_values example_stock)
   \<and> the (bonds_table (tables (snd (setup_database example_db [example_stock]
        [example_bond, b999])))) ''B2'' = Some (bond_values example_bond)
   \<and> the (bonds_table (tables (snd (setup_database example_db [example_stock]
        [example_bond, b999])))) ''B999'' = Some (bond_values b999)
   \<and> tables (snd (setup_database
        (snd (setup_database example_db [example_stock] [example_bond, b999]))
        [example_stock] [example_bond, b999]))
       = tables (snd (setup_database example_db [example_stock] [example_bond, b999]))
   \<and> the (stocks_table (tables (snd (setup_database
        (snd (setup_database example_db [example_stock] [example_bond, b999]))
        [example_stock\<lparr>current_price := 175\<rparr>] [example_bond, b999])))) ''S1''
       = Some (''S1'', ''AAPL'', 10, 100, 175, ''8/1/2017'')
   \<and> dom (the (stocks_table (tables (snd (setup_database
        (snd (setup_database example_db [example_stock] [example_bond, b999]))
        [example_stock\<lparr>current_price := 175\<rparr>] [example_bond, b999]))))) = {''S1''}
   \<and> the (bonds_table (tables (snd (setup_database
        (snd (setup_database example_db [example_stock] [example_bond, b999]))
        [example_stock] [example_bond, b999\<lparr>current_price := 101\<rparr>])))) ''B999''
       = Some (''B999'', ''GT2:GOV'', 200, 100.02, 101, 1.38, 0.0135, ''8/1/2017'')
   \<and> dom (the (bonds_table (tables (snd (setup_database
        (snd (setup_database example_db [example_stock] [example_bond, b999]))
        [example_stock] [example_bond, b999\<lparr>current_price := 101\<rparr>]))))) = {''B2'', ''B999''}
   \<and> insert_stocks [example_stock, example_stock\<lparr>current_price := 175\<rparr>] Map.empty
       = Inr [''S1'' \<mapsto> (''S1'', ''AAPL'', 10, 100, 175, ''8/1/2017'')]
   \<and> insert_bonds [b999, b999\<lparr>current_price := 101\<rparr>] Map.empty
       = Inr [''B999'' \<mapsto> (''B999'', ''GT2:GOV'', 200, 100.02, 101, 1.38, 0.0135, ''8/1/2017'')]"
proof -
  let ?bs = "[example_bond, b999]"
  define db1 where "db1 = snd (setup_database example_db [example_stock] ?bs)"
  define db2 where "db2 = snd (setup_database db1 [example_stock\<lparr>current_price := 175\<rparr>] ?bs)"
  define db3 where "db3 = snd (setup_database db1 [example_stock] [example_bond, b999\<lparr>current_price := 101\<rparr>])"
  define db4 where "db4 = snd (setup_database db1 [example_stock] ?bs)"
  have fits: "sqlite_integer (quantity example_stock)" "sqlite_integer (quantity example_bond)"
    "sqlite_integer (quantity b999)"
    by (simp_all add: example_stock_def example_bond_def b999_def sqlite_integer_def)
  have ids: "purchase_id example_stock = ''S1''" "purchase_id example_bond = ''B2''"
    "purchase_id b999 = ''B999''"
    by (simp_all add: example_stock_def example_bond_def b999_def)
  have run1: "setup_database example_db [example_stock] ?bs = (Inr (), db1)"
    using example_run_succeeds unfolding db1_def by (metis prod.collapse)
  have open1: "openable db1"
    unfolding db1_def setup_database_openable by (simp add: example_db_def)
  note first = upsert_by_primary_key [where db = example_db and stocks = "[example_stock]"
      and bonds = ?bs and db' = db1, THEN conjunct2, THEN conjunct2, THEN conjunct1, THEN mp, OF run1]
  note again = upsert_by_primary_key [where db = example_db and stocks = "[example_stock]"
      and bonds = ?bs and db' = db1, THEN conjunct2, THEN conjunct2, THEN conjunct2, THEN conjunct1, THEN mp, OF run1]
  have ok2: "fst (setup_database db1 [example_stock\<lparr>current_price := 175\<rparr>] ?bs) = Inr ()"
    using upsert_by_primary_key [where db = db1
        and stocks = "[example_stock\<lparr>current_price := 175\<rparr>]" and bonds = ?bs, THEN conjunct2, THEN conjunct2, THEN conjunct2, THEN conjunct2, THEN conjunct2, THEN conjunct2, THEN conjunct2, THEN conjunct1]
      open1 fits
    by simp
  then have run2: "setup_database db1 [example_stock\<lparr>current_price := 175\<rparr>] ?bs = (Inr (), db2)"
    unfolding db2_def by (metis prod.collapse)
  have ok3: "fst (setup_database db1 [example_stock] [example_bond, b999\<lparr>current_price := 101\<rparr>])
      = Inr ()"
    using upsert_by_primary_key [where db = db1 and stocks = "[example_stock]"
        and bonds = "[example_bond, b999\<lparr>current_price := 101\<rparr>]", THEN conjunct2, THEN conjunct2, THEN conjunct2, THEN conjunct2, THEN conjunct2, THEN conjunct2, THEN conjunct2, THEN conjunct1]
      open1 fits
    by simp
  then have run3: "setup_database db1 [example_stock] [example_bond, b999\<lparr>current_price := 101\<rparr>]
      = (Inr (), db3)"
    unfolding db3_def by (metis prod.collapse)
  have T1: "tables db1 =
      \<lparr>stocks_table = Some (create_table_if_not_exists (stocks_table (tables example_db))
           ++ map_of (rev (map (\<lambda>x. (purchase_id x, stock_values x)) [example_stock]))),
       bonds_table = Some (create_table_if_not_exists (bonds_table (tables example_db))
           ++ map_of (rev (map (\<lambda>y. (purchase_id y, bond_values y)) ?bs)))\<rparr>"
    using first by (rule conjunct1)
  have rows1: "the (stocks_table (tables db1)) ''S1'' = Some (stock_values example_stock)"
    "the (bonds_table (tables db1)) ''B2'' = Some (bond_values example_bond)"
    "the (bonds_table (tables db1)) ''B999'' = Some (bond_values b999)"
    by (simp_all add: T1 ids example_db_def create_table_if_not_exists_def)
  have doms1: "dom (the (stocks_table (tables db1))) = {''S1''}"
    "dom (the (bonds_table (tables db1))) = {''B2'', ''B999''}"
    by (auto simp: T1 ids example_db_def create_table_if_not_exists_def)
  have same: "tables db4 = tables db1"
    using again unfolding db4_def by fastforce
  have run1': "setup_database example_db ([] @ [example_stock] @ []) ?bs = (Inr (), db1)"
    "setup_database example_db [example_stock] ([example_bond] @ [b999] @ []) = (Inr (), db1)"
    using run1 by simp_all
  have run2': "setup_database db1 ([] @ [example_stock\<lparr>current_price := 175\<rparr>] @ []) ?bs
      = (Inr (), db2)"
    using run2 by simp
  have run3': "setup_database db1 [example_stock]
      ([example_bond] @ [b999\<lparr>current_price := 101\<rparr>] @ []) = (Inr (), db3)"
    using run3 by simp
  have "\<exists>t1 t2. stocks_table (tables db1) = Some t1 \<and> stocks_table (tables db2) = Some t2
          \<and> t2 (purchase_id example_stock)
              = Some (stock_values (example_stock\<lparr>current_price := 175\<rparr>))
          \<and> dom t2 = dom t1 \<and> (\<forall>k. k \<noteq> purchase_id example_stock \<longrightarrow> t2 k = t1 k)
          \<and> bonds_table (tables db2) = bonds_table (tables db1)"
    using upsert_by_primary_key [where db = example_db and pre = "[]" and s = example_stock
        and post = "[]" and bonds = ?bs and db' = db1 and p = 175 and db'' = db2,
        THEN conjunct2, THEN conjunct2, THEN conjunct2, THEN conjunct2, THEN conjunct2, THEN conjunct1, THEN mp] run1'(1) run2'
    by simp
  then obtain t1 t2 where s: "stocks_table (tables db1) = Some t1"
    "stocks_table (tables db2) = Some t2"
    "t2 (purchase_id example_stock) = Some (stock_values (example_stock\<lparr>current_price := 175\<rparr>))"
    "dom t2 = dom t1"
    by blast
  have "\<exists>u1 u2. bonds_table (tables db1) = Some u1 \<and> bonds_table (tables db3) = Some u2
          \<and> u2 (purchase_id b999) = Some (bond_values (b999\<lparr>current_price := 101\<rparr>))
          \<and> dom u2 = dom u1 \<and> (\<forall>k. k \<noteq> purchase_id b999 \<longrightarrow> u2 k = u1 k)
          \<and> stocks_table (tables db3) = stocks_table (tables db1)"
    using upsert_by_primary_key [where db = example_db and stocks = "[example_stock]"
        and bpre = "[example_bond]" and b = b999 and bpost = "[]" and db' = db1 and p = 101
        and db'' = db3, THEN conjunct2, THEN conjunct2, THEN conjunct2, THEN conjunct2, THEN conjunct2, THEN conjunct2, THEN conjunct1, THEN mp] run1'(2) run3'
    by simp
  then obtain u1 u2 where u: "bonds_table (tables db1) = Some u1"
    "bonds_table (tables db3) = Some u2"
    "u2 (purchase_id b999) = Some (bond_values (b999\<lparr>current_price := 101\<rparr>))"
    "dom u2 = dom u1"
    by blast
  have r2: "the (stocks_table (tables db2)) ''S1'' = Some (''S1'', ''AAPL'', 10, 100, 175, ''8/1/2017'')"
    "dom (the (stocks_table (tables db2))) = {''S1''}"
    using s doms1(1) by (simp_all add: example_stock_def stock_values_def)
  have r3: "the (bonds_table (tables db3)) ''B999''
       = Some (''B999'', ''GT2:GOV'', 200, 100.02, 101, 1.38, 0.0135, ''8/1/2017'')"
    "dom (the (bonds_table (tables db3))) = {''B2'', ''B999''}"
    using u doms1(2) by (simp_all add: b999_def bond_values_def)
  have dup: "insert_stocks [example_stock, example_stock\<lparr>current_price := 175\<rparr>] Map.empty
       = Inr [''S1'' \<mapsto> (''S1'', ''AAPL'', 10, 100, 175, ''8/1/2017'')]"
    "insert_bonds [b999, b999\<lparr>current_price := 101\<rparr>] Map.empty
       = Inr [''B999'' \<mapsto> (''B999'', ''GT2:GOV'', 200, 100.02, 101, 1.38, 0.0135, ''8/1/2017'')]"
    using upsert_by_primary_key [where s = example_stock
        and s' = "example_stock\<lparr>current_price := 175\<rparr>" and t = Map.empty, THEN conjunct2, THEN conjunct2, THEN conjunct2, THEN conjunct2, THEN conjunct2, THEN conjunct2, THEN conjunct2, THEN conjunct2, THEN conjunct1]
      upsert_by_primary_key [where b = b999 and b' = "b999\<lparr>current_price := 101\<rparr>"
        and u = Map.empty, THEN conjunct2, THEN conjunct2, THEN conjunct2, THEN conjunct2, THEN conjunct2, THEN conjunct2, THEN conjunct2, THEN conjunct2, THEN conjunct2] fits
    by (simp_all add: example_stock_def stock_values_def b999_def bond_values_def)
  show ?thesis
    using example_run_succeeds rows1 same r2 r3 dup
    unfolding db1_def [symmetric] db2_def [symmetric] db3_def [symmetric] db4_def [symmetric]
    by simp
qed

section \<open>The run\<close>

lemma hardcoded_bond_value: "hardcoded_bond = Inr b999"
  by (simp add: hardcoded_bond_def b999_def Bond_init_def Investment_init_def conversion_defs
      Investment.extend_def)

lemma write_report_frame:
  "stdin (write_report today investor stocks bonds output_file w) = stdin w"
  "portfolio_db (write_report today investor stocks bonds output_file w) = portfolio_db w"
  "chart_fault (write_report today investor stocks bonds output_file w) = chart_fault w"
  "writable (write_report today investor stocks bonds output_file w) = writable w"
  by (simp_all add: write_report_def split: prod.splits option.splits)

lemma export_csv_frame:
  "stdin (export_csv today stocks csv_file w) = stdin w"
  "portfolio_db (export_csv today stocks csv_file w) = portfolio_db w"
  "chart_fault (export_csv today stocks csv_file w) = chart_fault w"
  by (simp_all add: export_csv_def split: prod.splits option.splits)

lemma visualize_json_frame:
  "stdin (visualize_json json_file portfolio w) = stdin w"
  "portfolio_db (visualize_json json_file portfolio w) = portfolio_db w"
  by (simp_all add: visualize_json_def split: option.splits)

lemma filter_outcome_any_output:
  "fst (interactive_portfolio_filter today stocks inp out)
     = fst (interactive_portfolio_filter today stocks inp out')"
proof (induction today stocks inp out arbitrary: out' rule: interactive_portfolio_filter.induct)
  case (1 today stocks out)
  show ?case by simp
next
  case (2 today stocks line rest out)
  show ?case
  proof (cases "norm_choice line")
    case (Inl e)
    then show ?thesis by simp
  next
    case (Inr choice)
    consider (pos) "choice \<in> set [''1'', ''positive'']"
      | (neg) "choice \<notin> set [''1'', ''positive'']" "choice \<in> set [''2'', ''negative'']"
      | (sort) "choice \<notin> set [''1'', ''positive'']" "choice \<notin> set [''2'', ''negative'']"
          "choice \<in> set [''3'', ''sort'']"
      | (look) "choice \<notin> set [''1'', ''positive'']" "choice \<notin> set [''2'', ''negative'']"
          "choice \<notin> set [''3'', ''sort'']" "choice \<in> set [''4'', ''lookup'']"
      | (exit) "choice \<notin> set [''1'', ''positive'']" "choice \<notin> set [''2'', ''negative'']"
          "choice \<notin> set [''3'', ''sort'']" "choice \<notin> set [''4'', ''lookup'']"
          "choice \<in> set [''5'', ''exit'', ''quit'']"
      | (other) "choice \<notin> set [''1'', ''positive'']" "choice \<notin> set [''2'', ''negative'']"
          "choice \<notin> set [''3'', ''sort'']" "choice \<notin> set [''4'', ''lookup'']"
          "choice \<notin> set [''5'', ''exit'', ''quit'']"
      by blast
    then show ?thesis
    proof cases
      case pos
      show ?thesis
        using "2.IH"(1) [OF Inr pos]
        by (simp only: interactive_portfolio_filter.simps Inr sum.case pos if_True)
    next
      case neg
      show ?thesis
        using "2.IH"(2) [OF Inr neg]
        by (simp only: interactive_portfolio_filter.simps Inr sum.case neg if_True if_False)
    next
      case sort
      show ?thesis
      proof (cases "sorted_by_yearly_return today stocks")
        case (Inl e)
        show ?thesis
          by (simp only: interactive_portfolio_filter.simps Inr Inl sum.case sort if_True if_False
              fst_conv)
      next
        case ms: (Inr ms)
        show ?thesis
          using "2.IH"(3) [OF Inr sort ms]
          by (simp only: interactive_portfolio_filter.simps Inr ms sum.case sort if_True if_False)
      qed
    next
      case look
      show ?thesis
      proof (cases rest)
        case Nil
        show ?thesis
          by (simp only: interactive_portfolio_filter.simps Inr Nil sum.case list.case look
              if_True if_False fst_conv)
      next
        case (Cons sym_line rest')
        show ?thesis
        proof (cases "lookup today stocks (py_upper sym_line)")
          case (Inl e)
          show ?thesis
            by (simp only: interactive_portfolio_filter.simps Inr Cons Inl sum.case list.case look
                if_True if_False fst_conv)
        next
          case m: (Inr m)
          show ?thesis
            using "2.IH"(4) [OF Inr look Cons m]
            by (simp only: interactive_portfolio_filter.simps Inr Cons m sum.case list.case look
                if_True if_False)
        qed
      qed
    next
      case exit
      show ?thesis
        by (simp only: interactive_portfolio_filter.simps Inr sum.case exit if_True if_False
            fst_conv)
    next
      case other
      show ?thesis
        using "2.IH"(5) [OF Inr other]
        by (simp only: interactive_portfolio_filter.simps Inr sum.case other if_True if_False)
    qed
  qed
qed


lemma main_summary:
  fixes w :: world
  defines "stocks \<equiv> run_stocks (files w)" and "bonds \<equiv> run_bonds (files w)"
  defines "db \<equiv> snd (setup_database (portfolio_db w) stocks bonds)"
  shows "fst (main today w) =
           (case fst (setup_database (portfolio_db w) stocks bonds) of
              Inl e \<Rightarrow> Inl e
            | Inr _ \<Rightarrow> fst (interactive_portfolio_filter today stocks (stdin w) []))"
    and "portfolio_db (snd (main today w)) =
           (case fst (setup_database (portfolio_db w) stocks bonds) of
              Inl e \<Rightarrow> db
            | Inr _ \<Rightarrow>
                (case fst (interactive_portfolio_filter today stocks (stdin w) []) of
                   Inl e \<Rightarrow> db
                 | Inr _ \<Rightarrow> conn_close db))"
proof -
  obtain ss m1 where rs: "read_stocks (files w) ''Lesson6_Data_Stocks.txt'' = (ss, m1)"
    by (cases "read_stocks (files w) ''Lesson6_Data_Stocks.txt''")
  obtain bs m2 where rb: "read_bonds (files w) ''Week6_Data_Bonds.txt'' = (bs, m2)"
    by (cases "read_bonds (files w) ''Week6_Data_Bonds.txt''")
  have stocks: "stocks = ss" and bonds: "bonds = bs @ [b999]"
    by (simp_all add: stocks_def bonds_def run_stocks_def run_bonds_def rs rb)
  obtain r d where sd: "setup_database (portfolio_db w) ss (bs @ [b999]) = (r, d)"
    by (cases "setup_database (portfolio_db w) ss (bs @ [b999])")
  have db: "db = d"
    by (simp add: db_def stocks bonds sd)
  show "fst (main today w) =
           (case fst (setup_database (portfolio_db w) stocks bonds) of
              Inl e \<Rightarrow> Inl e
            | Inr _ \<Rightarrow> fst (interactive_portfolio_filter today stocks (stdin w) []))"
    and "portfolio_db (snd (main today w)) =
           (case fst (setup_database (portfolio_db w) stocks bonds) of
              Inl e \<Rightarrow> db
            | Inr _ \<Rightarrow>
                (case fst (interactive_portfolio_filter today stocks (stdin w) []) of
                   Inl e \<Rightarrow> db
                 | Inr _ \<Rightarrow> conn_close db))"
  proof (atomize (full), cases r)
    case (Inl e)
    then show "fst (main today w) =
           (case fst (setup_database (portfolio_db w) stocks bonds) of
              Inl e \<Rightarrow> Inl e
            | Inr _ \<Rightarrow> fst (interactive_portfolio_filter today stocks (stdin w) []))
       \<and> portfolio_db (snd (main today w)) =
           (case fst (setup_database (portfolio_db w) stocks bonds) of
              Inl e \<Rightarrow> db
            | Inr _ \<Rightarrow>
                (case fst (interactive_portfolio_filter today stocks (stdin w) []) of
                   Inl e \<Rightarrow> db
                 | Inr _ \<Rightarrow> conn_close db))"
      by (simp add: main_def rs rb hardcoded_bond_value sd stocks bonds db)
  next
    case (Inr u)
    define w3 where "w3 = export_csv today ss ''stock_summary.csv''
        (write_report today
           \<lparr>investor_id = ''INV001'', name = ''Peyton Holdbrooks'', address = ''Denver, CO'',
            phone = ''(334)500-2140''\<rparr>
           ss (bs @ [b999]) ''Investment_Report.txt''
           (w\<lparr>stdout := stdout w @ m1 @ m2, portfolio_db := d\<rparr>))"
    have w3: "stdin w3 = stdin w" "portfolio_db w3 = d"
      by (simp_all add: w3_def export_csv_frame write_report_frame)
    obtain fr rest out where
      fl: "interactive_portfolio_filter today ss (stdin w) (stdout w3) = (fr, rest, out)"
      by (cases "interactive_portfolio_filter today ss (stdin w) (stdout w3)")
    have fr: "fst (interactive_portfolio_filter today ss (stdin w) []) = fr"
      using filter_outcome_any_output [of today ss "stdin w" "[]" "stdout w3"] fl by simp
    have m: "main today w =
        (case fr of
           Inl e \<Rightarrow> (Inl e, w3\<lparr>stdin := rest, stdout := out\<rparr>)
         | Inr done \<Rightarrow>
             (Inr (),
              (visualize_json ''AllStocks.json'' (portfolio_map ss) (w3\<lparr>stdin := rest, stdout := out\<rparr>))
              \<lparr>portfolio_db := conn_close
                 (portfolio_db (visualize_json ''AllStocks.json'' (portfolio_map ss)
                    (w3\<lparr>stdin := rest, stdout := out\<rparr>)))\<rparr>))"
      by (cases fr)
        (simp_all add: main_def rs rb hardcoded_bond_value sd Inr Let_def w3_def
          export_csv_frame write_report_frame fl [unfolded w3_def])
    show "fst (main today w) =
           (case fst (setup_database (portfolio_db w) stocks bonds) of
              Inl e \<Rightarrow> Inl e
            | Inr _ \<Rightarrow> fst (interactive_portfolio_filter today stocks (stdin w) []))
       \<and> portfolio_db (snd (main today w)) =
           (case fst (setup_database (portfolio_db w) stocks bonds) of
              Inl e \<Rightarrow> db
            | Inr _ \<Rightarrow>
                (case fst (interactive_portfolio_filter today stocks (stdin w) []) of
                   Inl e \<Rightarrow> db
                 | Inr _ \<Rightarrow> conn_close db))"
      unfolding m
      by (cases fr) (simp_all add: stocks bonds db sd Inr fr visualize_json_frame w3)
  qed
qed


lemma main_tables:
  "tables (portfolio_db (snd (main today w)))
     = tables (snd (setup_database (portfolio_db w) (run_stocks (files w)) (run_bonds (files w))))"
  by (simp add: main_summary(2) conn_close_def split: sum.splits)

lemma main_conn_log:
  "conn_log (portfolio_db (snd (main today w))) =
     (case fst (setup_database (portfolio_db w) (run_stocks (files w)) (run_bonds (files w))) of
        Inl e \<Rightarrow> conn_log (snd (setup_database (portfolio_db w) (run_stocks (files w))
                                (run_bonds (files w))))
      | Inr _ \<Rightarrow>
          (case fst (interactive_portfolio_filter today (run_stocks (files w)) (stdin w) []) of
             Inl e \<Rightarrow> conn_log (portfolio_db w) @ [Connect, Commit]
           | Inr _ \<Rightarrow> conn_log (portfolio_db w) @ [Connect, Commit, Close]))"
  by (simp add: main_summary(2) conn_close_def setup_database_result split: sum.splits if_splits)

lemma run_example:
  "run_stocks example_files = [example_stock]"
  "run_bonds example_files = [example_bond, b999]"
  by (simp_all add: run_stocks_def run_bonds_def read_stocks_example read_bonds_example)

lemma example_holdings_fit:
  "sqlite_integer (quantity example_bond)" "sqlite_integer (quantity b999)"
  by (simp_all add: example_bond_def b999_def sqlite_integer_def)

lemma example_setup_succeeds:
  "fst (setup_database example_db (run_stocks example_files) (run_bonds example_files)) = Inr ()"
  "fst (setup_database example_old_db (run_stocks example_files) (run_bonds example_files)) = Inr ()"
  by (simp_all add: setup_database_succeeds run_example example_stock_fits example_holdings_fit
      example_db_def example_old_db_def)

lemma map_add_lookup:
  "(m ++ n) k = (case n k of Some row \<Rightarrow> Some row | None \<Rightarrow> m k)"
  by (simp add: map_add_def)

lemma map_of_rev_defined:
  "map_of (rev (map (\<lambda>x. (f x, g x)) xs)) k \<noteq> None \<longleftrightarrow> k \<in> f ` set xs"
  by (simp add: map_of_eq_None_iff image_image)

lemma norm_choice_blank: "norm_choice [] = Inl IndexError"
  by (simp add: norm_choice_def py_split_ws_def py_lower_def py_strip_def strip_where_def)

lemma norm_choice_5: "norm_choice ''5'' = Inr ''5''"
  by (simp add: norm_choice_def py_split_ws_def py_lower_def py_strip_def strip_where_def
      py_isspace_def upper_letters_def lower_letters_def)

text \<open>
  C7, as the specification states it, fails. Two runs read the same input files, one on a
  fresh database and one on a database where an earlier run left the row \<open>S7\<close>: the first
  ends with no row \<open>S7\<close>, the second still has it, and the tables differ.
\<close>

theorem old_rows_survive_counterexample:
  "files (example_world\<lparr>portfolio_db := example_old_db\<rparr>) = files example_world
   \<and> the (stocks_table (tables (portfolio_db (snd (main example_today example_world))))) ''S7''
       = None
   \<and> the (stocks_table (tables (portfolio_db
        (snd (main example_today (example_world\<lparr>portfolio_db := example_old_db\<rparr>)))))) ''S7''
       = Some (''S7'', ''TSLA'', 3, 10, 20, ''1/2/2019'')
   \<and> tables (portfolio_db (snd (main example_today example_world)))
       \<noteq> tables (portfolio_db
            (snd (main example_today (example_world\<lparr>portfolio_db := example_old_db\<rparr>))))"
proof -
  have a: "the (stocks_table (tables (portfolio_db (snd (main example_today example_world)))))
      ''S7'' = None"
    unfolding main_tables
    using setup_database_tables [OF example_setup_succeeds(1)]
    by (simp add: example_world_def run_example example_db_def create_table_if_not_exists_def
        example_stock_def)
  have b: "the (stocks_table (tables (portfolio_db
        (snd (main example_today (example_world\<lparr>portfolio_db := example_old_db\<rparr>)))))) ''S7''
       = Some (''S7'', ''TSLA'', 3, 10, 20, ''1/2/2019'')"
    unfolding main_tables
    using setup_database_tables [OF example_setup_succeeds(2)]
    by (simp add: example_world_def run_example example_old_db_def
        create_table_if_not_exists_def example_stock_def)
  from a b have "tables (portfolio_db (snd (main example_today example_world)))
       \<noteq> tables (portfolio_db
            (snd (main example_today (example_world\<lparr>portfolio_db := example_old_db\<rparr>))))"
    by auto
  with a b show ?thesis by simp
qed


text \<open>
  C7, amended. When the upsert step of a run completes, each table is the prior table
  (empty if it did not exist) overwritten by the run's holdings: under a purchase
  identifier that occurs among the holdings of the run (the parsed input files and the
  hardcoded bond \<open>B999\<close>, which is always among them) the row is that of the last such
  holding, a function of the inputs alone, the same for every prior store state; under
  any other identifier the row of the prior store is kept.
\<close>

theorem store_after_run:
  "(fst (setup_database (portfolio_db w) (run_stocks (files w)) (run_bonds (files w))) = Inr () \<longrightarrow>
      (\<exists>st bt.
         tables (portfolio_db (snd (main today w))) = \<lparr>stocks_table = Some st, bonds_table = Some bt\<rparr>
         \<and> (\<forall>k. st k =
               (case map_of (rev (map (\<lambda>s. (purchase_id s, stock_values s)) (run_stocks (files w)))) k of
                  Some row \<Rightarrow> Some row
                | None \<Rightarrow> create_table_if_not_exists (stocks_table (tables (portfolio_db w))) k))
         \<and> (\<forall>k. bt k =
               (case map_of (rev (map (\<lambda>b. (purchase_id b, bond_values b)) (run_bonds (files w)))) k of
                  Some row \<Rightarrow> Some row
                | None \<Rightarrow> create_table_if_not_exists (bonds_table (tables (portfolio_db w))) k))))
   \<and> (map_of (rev (map (\<lambda>s. (purchase_id s, stock_values s)) (run_stocks (files w)))) k \<noteq> None
        \<longleftrightarrow> k \<in> purchase_id ` set (run_stocks (files w)))
   \<and> (map_of (rev (map (\<lambda>b. (purchase_id b, bond_values b)) (run_bonds (files w)))) k \<noteq> None
        \<longleftrightarrow> k \<in> purchase_id ` set (run_bonds (files w)))
   \<and> b999 \<in> set (run_bonds (files w))
   \<and> (files w' = files w
        \<and> fst (setup_database (portfolio_db w) (run_stocks (files w)) (run_bonds (files w))) = Inr ()
        \<and> fst (setup_database (portfolio_db w') (run_stocks (files w)) (run_bonds (files w))) = Inr ()
        \<longrightarrow>
        (k \<in> purchase_id ` set (run_stocks (files w)) \<longrightarrow>
           the (stocks_table (tables (portfolio_db (snd (main today' w'))))) k
             = the (stocks_table (tables (portfolio_db (snd (main today w))))) k)
        \<and> (k \<in> purchase_id ` set (run_bonds (files w)) \<longrightarrow>
           the (bonds_table (tables (portfolio_db (snd (main today' w'))))) k
             = the (bonds_table (tables (portfolio_db (snd (main today w))))) k))"
proof -
  let ?skv = "rev (map (\<lambda>s. (purchase_id s, stock_values s)) (run_stocks (files w)))"
  let ?bkv = "rev (map (\<lambda>b. (purchase_id b, bond_values b)) (run_bonds (files w)))"
  have tabs: "tables (portfolio_db (snd (main t v)))
      = \<lparr>stocks_table = Some (create_table_if_not_exists (stocks_table (tables (portfolio_db v)))
                                ++ map_of ?skv),
         bonds_table = Some (create_table_if_not_exists (bonds_table (tables (portfolio_db v)))
                                ++ map_of ?bkv)\<rparr>"
    if "files v = files w"
      "fst (setup_database (portfolio_db v) (run_stocks (files w)) (run_bonds (files w))) = Inr ()"
    for t v
    using that setup_database_tables [of "portfolio_db v" "run_stocks (files w)" "run_bonds (files w)"]
    by (simp add: main_tables)
  have first: "\<exists>st bt.
         tables (portfolio_db (snd (main today w))) = \<lparr>stocks_table = Some st, bonds_table = Some bt\<rparr>
         \<and> (\<forall>k. st k = (case map_of ?skv k of
                  Some row \<Rightarrow> Some row
                | None \<Rightarrow> create_table_if_not_exists (stocks_table (tables (portfolio_db w))) k))
         \<and> (\<forall>k. bt k = (case map_of ?bkv k of
                  Some row \<Rightarrow> Some row
                | None \<Rightarrow> create_table_if_not_exists (bonds_table (tables (portfolio_db w))) k))"
    if "fst (setup_database (portfolio_db w) (run_stocks (files w)) (run_bonds (files w))) = Inr ()"
    using tabs [OF refl that, of today] by (simp add: map_add_lookup)
  have sk: "map_of ?skv k \<noteq> None \<longleftrightarrow> k \<in> purchase_id ` set (run_stocks (files w))"
    by (rule map_of_rev_defined)
  have bk: "map_of ?bkv k \<noteq> None \<longleftrightarrow> k \<in> purchase_id ` set (run_bonds (files w))"
    by (rule map_of_rev_defined)
  have same: "(k \<in> purchase_id ` set (run_stocks (files w)) \<longrightarrow>
           the (stocks_table (tables (portfolio_db (snd (main today' w'))))) k
             = the (stocks_table (tables (portfolio_db (snd (main today w))))) k)
        \<and> (k \<in> purchase_id ` set (run_bonds (files w)) \<longrightarrow>
           the (bonds_table (tables (portfolio_db (snd (main today' w'))))) k
             = the (bonds_table (tables (portfolio_db (snd (main today w))))) k)"
    if "files w' = files w
        \<and> fst (setup_database (portfolio_db w) (run_stocks (files w)) (run_bonds (files w))) = Inr ()
        \<and> fst (setup_database (portfolio_db w') (run_stocks (files w)) (run_bonds (files w))) = Inr ()"
  proof -
    have 1: "tables (portfolio_db (snd (main today w)))
      = \<lparr>stocks_table = Some (create_table_if_not_exists (stocks_table (tables (portfolio_db w)))
                                ++ map_of ?skv),
         bonds_table = Some (create_table_if_not_exists (bonds_table (tables (portfolio_db w)))
                                ++ map_of ?bkv)\<rparr>"
      using that by (intro tabs) simp_all
    have 2: "tables (portfolio_db (snd (main today' w')))
      = \<lparr>stocks_table = Some (create_table_if_not_exists (stocks_table (tables (portfolio_db w')))
                                ++ map_of ?skv),
         bonds_table = Some (create_table_if_not_exists (bonds_table (tables (portfolio_db w')))
                                ++ map_of ?bkv)\<rparr>"
      using that by (intro tabs) simp_all
    show ?thesis
      unfolding 1 2 using sk bk by (auto simp: map_add_lookup split: option.splits)
  qed
  have "b999 \<in> set (run_bonds (files w))"
    by (simp add: run_bonds_def)
  with first sk bk same show ?thesis by blast
qed


text \<open>
  On the example files, with and without the earlier row: \<open>S1\<close> and \<open>B999\<close> are the same in
  both stores, and the store that had \<open>S7\<close> keeps it beside them.
\<close>

theorem store_after_run_witness:
  "files example_world = files (example_world\<lparr>portfolio_db := example_old_db\<rparr>)
   \<and> fst (setup_database example_old_db (run_stocks example_files) (run_bonds example_files))
       = Inr ()
   \<and> fst (setup_database example_db (run_stocks example_files) (run_bonds example_files)) = Inr ()
   \<and> ''S1'' \<in> purchase_id ` set (run_stocks example_files)
   \<and> ''B999'' \<in> purchase_id ` set (run_bonds example_files)
   \<and> the (stocks_table (tables (portfolio_db (snd (main example_today example_world))))) ''S1''
       = the (stocks_table (tables (portfolio_db
            (snd (main example_today (example_world\<lparr>portfolio_db := example_old_db\<rparr>)))))) ''S1''
   \<and> the (bonds_table (tables (portfolio_db (snd (main example_today example_world))))) ''B999''
       = the (bonds_table (tables (portfolio_db
            (snd (main example_today (example_world\<lparr>portfolio_db := example_old_db\<rparr>)))))) ''B999''
   \<and> (\<exists>st bt. tables (portfolio_db
            (snd (main example_today (example_world\<lparr>portfolio_db := example_old_db\<rparr>))))
          = \<lparr>stocks_table = Some st, bonds_table = Some bt\<rparr>
        \<and> st ''S1'' = Some (stock_values example_stock)
        \<and> st ''S7'' = Some (''S7'', ''TSLA'', 3, 10, 20, ''1/2/2019'')
        \<and> bt ''B999'' = Some (bond_values b999))"
proof -
  let ?old = "example_world\<lparr>portfolio_db := example_old_db\<rparr>"
  have f: "files ?old = example_files" "files example_world = example_files"
    "portfolio_db ?old = example_old_db" "portfolio_db example_world = example_db"
    by (simp_all add: example_world_def)
  have ids: "''S1'' \<in> purchase_id ` set (run_stocks example_files)"
    "''B999'' \<in> purchase_id ` set (run_bonds example_files)"
    by (simp_all add: run_example example_stock_def example_bond_def b999_def)
  note s1 = store_after_run [where w = ?old and w' = example_world and k = "''S1''"
      and today = example_today and today' = example_today, unfolded f]
  note b9 = store_after_run [where w = ?old and w' = example_world and k = "''B999''"
      and today = example_today and today' = example_today, unfolded f]
  have eq1: "the (stocks_table (tables (portfolio_db (snd (main example_today example_world))))) ''S1''
       = the (stocks_table (tables (portfolio_db (snd (main example_today ?old))))) ''S1''"
    using s1 example_setup_succeeds ids(1) by blast
  have eq2: "the (bonds_table (tables (portfolio_db (snd (main example_today example_world))))) ''B999''
       = the (bonds_table (tables (portfolio_db (snd (main example_today ?old))))) ''B999''"
    using b9 example_setup_succeeds ids(2) by blast
  obtain st bt where t: "tables (portfolio_db (snd (main example_today ?old)))
        = \<lparr>stocks_table = Some st, bonds_table = Some bt\<rparr>"
    and st: "\<And>k. st k =
       (case map_of (rev (map (\<lambda>s. (purchase_id s, stock_values s)) (run_stocks example_files))) k of
          Some row \<Rightarrow> Some row
        | None \<Rightarrow> create_table_if_not_exists (stocks_table (tables example_old_db)) k)"
    and bt: "\<And>k. bt k =
       (case map_of (rev (map (\<lambda>b. (purchase_id b, bond_values b)) (run_bonds example_files))) k of
          Some row \<Rightarrow> Some row
        | None \<Rightarrow> create_table_if_not_exists (bonds_table (tables example_old_db)) k)"
    using s1 example_setup_succeeds(2) by blast
  have rows: "st ''S1'' = Some (stock_values example_stock)"
    "st ''S7'' = Some (''S7'', ''TSLA'', 3, 10, 20, ''1/2/2019'')"
    "bt ''B999'' = Some (bond_values b999)"
    by (simp_all add: st bt run_example example_old_db_def create_table_if_not_exists_def
        example_stock_def example_bond_def b999_def)
  show ?thesis
    using f(1,2) example_setup_succeeds ids eq1 eq2 t rows by auto
qed

text \<open>
  C8, as the specification states it, fails. The user enters an empty line at the menu:
  the upsert has committed, \<open>norm\<close> raises \<open>IndexError\<close>, \<open>main\<close> ends with that exception
  and the connection has not been closed.
\<close>

theorem blank_line_leaves_connection_open_counterexample:
  "fst (main example_today (example_world\<lparr>stdin := [[]]\<rparr>)) = Inl IndexError
   \<and> conn_log (portfolio_db (snd (main example_today (example_world\<lparr>stdin := [[]]\<rparr>))))
       = [Connect, Commit]
   \<and> count_list
        (conn_log (portfolio_db (snd (main example_today (example_world\<lparr>stdin := [[]]\<rparr>)))))
        Close = 0"
proof -
  have "fst (interactive_portfolio_filter example_today [example_stock] [[]] []) = Inl IndexError"
    by (simp add: norm_choice_blank)
  then show ?thesis
    using example_setup_succeeds(1)
    by (simp add: main_summary(1) main_conn_log example_world_def run_example example_db_def)
qed

text \<open>
  C8, amended. When \<open>setup_database\<close> succeeds and the menu returns, \<open>main\<close> returns and
  has opened the connection, committed and closed it exactly once. Neither the writable
  paths nor the fault of the chart enter the condition: report writing, CSV export and
  charting catch their own exceptions, so their failure never keeps the close from
  running.
\<close>

theorem connection_closed_on_return:
  "(fst (setup_database (portfolio_db w) (run_stocks (files w)) (run_bonds (files w))) = Inr ()
     \<and> fst (interactive_portfolio_filter today (run_stocks (files w)) (stdin w) []) = Inr ()
    \<longrightarrow> fst (main today w) = Inr ()
        \<and> conn_log (portfolio_db (snd (main today w)))
            = conn_log (portfolio_db w) @ [Connect, Commit, Close])
   \<and> (fst (main today w) = Inr () \<longrightarrow>
        conn_log (portfolio_db (snd (main today w)))
          = conn_log (portfolio_db w) @ [Connect, Commit, Close]
        \<and> count_list (conn_log (portfolio_db (snd (main today w)))) Close
          = count_list (conn_log (portfolio_db w)) Close + 1)"
  by (auto simp: main_summary(1) main_conn_log split: sum.splits)


text \<open>
  A run in which no output path is writable and the chart fails: the three steps print
  their failure, \<open>main\<close> returns and the connection is closed once.
\<close>

theorem connection_closed_on_return_witness:
  "fst (setup_database example_db (run_stocks example_files) (run_bonds example_files)) = Inr ()
   \<and> fst (interactive_portfolio_filter example_today (run_stocks example_files) [''5''] []) = Inr ()
   \<and> fst (main example_today
        (example_world\<lparr>writable := (\<lambda>path. False),
                       chart_fault := (\<lambda>json_file portfolio. Some OSError)\<rparr>)) = Inr ()
   \<and> conn_log (portfolio_db (snd (main example_today
        (example_world\<lparr>writable := (\<lambda>path. False),
                       chart_fault := (\<lambda>json_file portfolio. Some OSError)\<rparr>))))
       = [Connect, Commit, Close]
   \<and> stdout (write_report example_today
        \<lparr>investor_id = ''INV001'', name = ''Peyton Holdbrooks'', address = ''Denver, CO'',
          phone = ''(334)500-2140''\<rparr>
        (run_stocks example_files)
        (run_bonds example_files) ''Investment_Report.txt''
        (example_world\<lparr>writable := (\<lambda>path. False),
                       chart_fault := (\<lambda>json_file portfolio. Some OSError)\<rparr>))
       = [ReportFailed ''Investment_Report.txt'' OSError]
   \<and> stdout (export_csv example_today (run_stocks example_files) ''stock_summary.csv''
        (example_world\<lparr>writable := (\<lambda>path. False),
                       chart_fault := (\<lambda>json_file portfolio. Some OSError)\<rparr>))
       = [CsvFailed ''stock_summary.csv'' OSError]
   \<and> stdout (visualize_json ''AllStocks.json'' (portfolio_map (run_stocks example_files))
        (example_world\<lparr>writable := (\<lambda>path. False),
                       chart_fault := (\<lambda>json_file portfolio. Some OSError)\<rparr>))
       = [VisualizationFailed OSError]"
proof -
  let ?w = "example_world\<lparr>writable := (\<lambda>path. False),
                       chart_fault := (\<lambda>json_file portfolio. Some OSError)\<rparr>"
  have f: "files ?w = example_files" "portfolio_db ?w = example_db" "stdin ?w = [''5'']"
    "conn_log example_db = []"
    by (simp_all add: example_world_def example_db_def)
  have "interactive_portfolio_filter example_today [example_stock] [''5''] []
      = (Inr (), [], [FilterOptions])"
    by (simp add: norm_choice_5)
  then have ok: "fst (interactive_portfolio_filter example_today (run_stocks example_files) [''5''] [])
      = Inr ()"
    by (simp add: run_example)
  have out: "stdout (write_report example_today
        \<lparr>investor_id = ''INV001'', name = ''Peyton Holdbrooks'', address = ''Denver, CO'',
          phone = ''(334)500-2140''\<rparr>
        (run_stocks example_files)
        (run_bonds example_files) ''Investment_Report.txt'' ?w)
       = [ReportFailed ''Investment_Report.txt'' OSError]"
    "stdout (export_csv example_today (run_stocks example_files) ''stock_summary.csv'' ?w)
       = [CsvFailed ''stock_summary.csv'' OSError]"
    "stdout (visualize_json ''AllStocks.json'' (portfolio_map (run_stocks example_files)) ?w)
       = [VisualizationFailed OSError]"
    by (simp_all add: write_report_def export_csv_def visualize_json_def example_world_def)
  show ?thesis
    using connection_closed_on_return [of ?w example_today, unfolded f]
      example_setup_succeeds(1) ok out
    by simp
qed

text \<open>
  C9. The specification lets the menu end only by an exit command and never by an
  uncaught exception. The code raises: on an empty input line \<open>norm\<close> indexes the empty
  list of tokens, and the \<open>IndexError\<close> leaves the loop and \<open>main\<close>; at the end of input
  \<open>input\<close> raises \<open>EOFError\<close>. The run below lists the positive earnings and then gets
  an empty line.
\<close>

theorem filter_raises_on_blank_line:
  "norm_choice [] = Inl IndexError
   \<and> interactive_portfolio_filter today stocks ([] # rest) out
       = (Inl IndexError, rest, out @ [FilterOptions])
   \<and> interactive_portfolio_filter today stocks [] out = (Inl EOFError, [], out @ [FilterOptions])
   \<and> fst (main example_today (example_world\<lparr>stdin := [''1'', []]\<rparr>)) = Inl IndexError"
proof -
  have "fst (interactive_portfolio_filter example_today [example_stock] [''1'', []] [])
      = Inl IndexError"
    by (simp add: norm_choice_blank norm_choice_def py_split_ws_def py_lower_def py_strip_def
        strip_where_def py_isspace_def upper_letters_def lower_letters_def)
  then show ?thesis
    using example_setup_succeeds(1)
    by (simp add: norm_choice_blank main_summary(1) example_world_def run_example)
qed

end
